theory Spec2Isabelle
  imports Main "HOL-Library.Sublist" "HOL-Library.Char_ord" "HOL-Library.List_Lexorder"
begin

section \<open>Python values, external calls and programs\<close>

text \<open>
  The notebooks are straight-line Python: every statement calls a library, an SDK or the
  IPython shell and hands the value it gets back to a later call. None of the callees
  belongs to the repository, so the embedding keeps them outside: a call is written with
  its callee and arguments as the source has them, and what it answers (a value, or an
  exception it raises) is a parameter of the execution, the \<open>library\<close>.
\<close>

datatype pyval =
    PNone
  | PBool bool
  | PInt int
  | PFloat int int  \<comment> \<open>a float literal \<open>m * 10 ^ e\<close>, as the source writes it\<close>
  | PStr string
  | PList "pyval list"
  | PTuple "pyval list"
  | PDict "(string \<times> pyval) list"
  | PObj string "pyval list"  \<comment> \<open>an object owned by a library: its class, what it holds\<close>

datatype exn = Exn string string  \<comment> \<open>exception class, message\<close>

datatype call =
    Import string  \<comment> \<open>\<open>import m\<close>, \<open>import m as n\<close>\<close>
  | ImportFrom string "string list"  \<comment> \<open>\<open>from m import a, b\<close>\<close>
  | Shell string  \<comment> \<open>\<open>!command\<close>\<close>
  | Magic string "string list"  \<comment> \<open>\<open>%name\<close> and \<open>%%name\<close>: the argument, then the lines it is given\<close>
  | Fn string "pyval list" "(string \<times> pyval) list"  \<comment> \<open>\<open>f(args, key=value)\<close>, \<open>f\<close> as written\<close>
  | Method pyval string "pyval list" "(string \<times> pyval) list"  \<comment> \<open>\<open>obj.m(args, key=value)\<close>\<close>
  | GetAttr pyval string  \<comment> \<open>\<open>obj.name\<close>\<close>
  | SetAttr pyval string pyval  \<comment> \<open>\<open>obj.name = value\<close>\<close>
  | Display pyval  \<comment> \<open>the value of a cell's last expression, handed to the display hook\<close>

text \<open>
  A program either returns, raises, or performs a call and goes on from its outcome. A
  Python statement \<open>x = f(a); rest\<close> outside any \<open>try\<close> block is \<open>Call (Fn ''f'' [a] []) (\<lambda>x. rest)\<close>:
  when the call raises, so does the program, with the same exception. A \<open>try\<close>/\<open>except\<close>
  around the call would be a \<open>Perform\<close> whose continuation does something else with the
  exception: goes on (a handler) or raises another one (a translation).
\<close>

datatype 'a prog =
    Return 'a
  | Raise exn
  | Perform call "exn + pyval \<Rightarrow> 'a prog"

definition Call :: "call \<Rightarrow> (pyval \<Rightarrow> 'a prog) \<Rightarrow> 'a prog" where
  "Call c k = Perform c (\<lambda>r. case r of Inl e \<Rightarrow> Raise e | Inr v \<Rightarrow> k v)"

primrec py_bind :: "'a prog \<Rightarrow> ('a \<Rightarrow> 'b prog) \<Rightarrow> 'b prog" where
  "py_bind (Return a) f = f a"
| "py_bind (Raise e) f = Raise e"
| "py_bind (Perform c k) f = Perform c (\<lambda>r. py_bind (k r) f)"


text \<open>
  An execution asks the library for the outcome of each call. The library sees how many
  calls were made before (which stands for every state hidden in the libraries, the
  services and the clock) and the call. The trace records each call with its outcome.
\<close>

type_synonym library = "nat \<Rightarrow> call \<Rightarrow> exn + pyval"
type_synonym trace = "(call \<times> (exn + pyval)) list"

primrec run :: "'a prog \<Rightarrow> library \<Rightarrow> trace \<Rightarrow> (exn + 'a) \<times> trace" where
  "run (Return a) lib tr = (Inr a, tr)"
| "run (Raise e) lib tr = (Inl e, tr)"
| "run (Perform c k) lib tr = run (k (lib (length tr) c)) lib (tr @ [(c, lib (length tr) c)])"

definition outcome :: "'a prog \<Rightarrow> library \<Rightarrow> exn + 'a" where
  "outcome p lib = fst (run p lib [])"

definition events :: "'a prog \<Rightarrow> library \<Rightarrow> trace" where
  "events p lib = snd (run p lib [])"

subsection \<open>What the interpreter does itself\<close>

definition display :: "pyval \<Rightarrow> unit prog" where
  \<comment> \<open>the display hook is called with the value of a cell's last expression (and shows
      nothing for \<open>None\<close>)\<close>
  "display v = Call (Display v) (\<lambda>_. Return ())"

definition items :: "pyval \<Rightarrow> pyval list option" where
  \<comment> \<open>the elements of a built-in sequence\<close>
  "items v =
     (case v of
        PList xs \<Rightarrow> Some xs
      | PTuple xs \<Rightarrow> Some xs
      | PStr s \<Rightarrow> Some (map (\<lambda>c. PStr [c]) s)
      | PDict kvs \<Rightarrow> Some (map (\<lambda>kv. PStr (fst kv)) kvs)
      | _ \<Rightarrow> None)"

definition py_iter :: "pyval \<Rightarrow> pyval list prog" where
  "py_iter v =
     (case items v of
        Some xs \<Rightarrow> Return xs
      | None \<Rightarrow> Raise (Exn ''TypeError'' ''object is not iterable''))"

definition unpack4 :: "pyval \<Rightarrow> (pyval \<times> pyval \<times> pyval \<times> pyval) prog" where
  \<comment> \<open>\<open>a, b, c, d = v\<close>\<close>
  "unpack4 v =
     py_bind (py_iter v) (\<lambda>xs.
       case xs of
         [a, b, c, d] \<Rightarrow> Return (a, b, c, d)
       | _ \<Rightarrow> Raise (Exn ''ValueError'' ''wrong number of values to unpack''))"

datatype fpart = Lit string | Interp pyval

definition py_format :: "pyval \<Rightarrow> string prog" where
  \<comment> \<open>\<open>{v}\<close> in an f-string: a string stands for itself, any other value is formatted by
      its own \<open>__format__\<close>, which must return a string\<close>
  "py_format v =
     (case v of
        PStr s \<Rightarrow> Return s
      | _ \<Rightarrow>
        Call (Fn ''format'' [v] []) (\<lambda>r.
          case r of
            PStr s \<Rightarrow> Return s
          | _ \<Rightarrow> Raise (Exn ''TypeError'' ''__format__ must return a str'')))"

primrec fstring :: "fpart list \<Rightarrow> string prog" where
  "fstring [] = Return []"
| "fstring (p # ps) =
     py_bind (case p of Lit s \<Rightarrow> Return s | Interp v \<Rightarrow> py_format v) (\<lambda>s.
     py_bind (fstring ps) (\<lambda>rest.
     Return (s @ rest)))"

primrec py_map :: "('a \<Rightarrow> 'b prog) \<Rightarrow> 'a list \<Rightarrow> 'b list prog" where
  \<comment> \<open>the body of a list comprehension, element by element\<close>
  "py_map f [] = Return []"
| "py_map f (x # xs) =
     py_bind (f x) (\<lambda>y.
     py_bind (py_map f xs) (\<lambda>ys.
     Return (y # ys)))"

definition last_n :: "nat \<Rightarrow> 'a list \<Rightarrow> 'a list" where
  \<comment> \<open>\<open>xs[-n:]\<close>\<close>
  "last_n n xs = drop (length xs - n) xs"

section \<open>The LightGBM notebook\<close>

text \<open>\<open>python-sdk/notebooks/train-lightgbm-local.ipynb\<close>, one definition for each code cell
  and each function it defines.\<close>

definition lgbm_pip_install :: "unit prog" where
  "lgbm_pip_install =
     Call (Shell ''pip install --upgrade numpy pandas scikit-learn lightgbm'') (\<lambda>_.
     Return ())"

definition lgbm_setup_tracking :: "pyval prog" where
  "lgbm_setup_tracking =
     Call (Import ''mlflow'') (\<lambda>_.
     Call (ImportFrom ''azureml.core'' [''Workspace'']) (\<lambda>_.
     Call (Fn ''Workspace.from_config'' [] []) (\<lambda>ws.
     Call (Method ws ''get_mlflow_tracking_uri'' [] []) (\<lambda>uri.
     Call (Fn ''mlflow.set_tracking_uri'' [uri] []) (\<lambda>_.
     Call (Fn ''mlflow.set_experiment'' [PStr ''lightgbm-iris-local-example''] []) (\<lambda>r.
     py_bind (display r) (\<lambda>_.
     Return ws)))))))"

definition lgbm_data_uri :: pyval where
  "lgbm_data_uri = PStr ''https://azuremlexamples.blob.core.windows.net/datasets/iris.csv''"

definition lgbm_load_data :: "pyval \<Rightarrow> pyval prog" where
  "lgbm_load_data data_uri =
     Call (Import ''pandas'') (\<lambda>_.
     Call (Fn ''pd.read_csv'' [data_uri] []) (\<lambda>df.
     Call (Method df ''head'' [] []) (\<lambda>h.
     py_bind (display h) (\<lambda>_.
     Return df))))"

definition lgbm_imports :: "unit prog" where
  "lgbm_imports =
     Call (Import ''time'') (\<lambda>_.
     Call (Import ''lightgbm'') (\<lambda>_.
     Call (ImportFrom ''sklearn.metrics'' [''log_loss'', ''accuracy_score'']) (\<lambda>_.
     Call (ImportFrom ''sklearn.preprocessing'' [''LabelEncoder'']) (\<lambda>_.
     Call (ImportFrom ''sklearn.model_selection'' [''train_test_split'']) (\<lambda>_.
     Return ())))))"

definition preprocess_data :: "pyval \<Rightarrow> (pyval \<times> pyval \<times> pyval \<times> pyval \<times> pyval) prog" where
  "preprocess_data df =
     Call (Method df ''drop'' [PList [PStr ''species'']] [(''axis'', PInt 1)]) (\<lambda>X.
     Call (Method df ''__getitem__'' [PStr ''species''] []) (\<lambda>y.
     Call (Fn ''LabelEncoder'' [] []) (\<lambda>enc.
     Call (Method enc ''fit_transform'' [y] []) (\<lambda>y.
     Call (Fn ''train_test_split'' [X, y]
            [(''test_size'', PFloat 2 (-1)), (''random_state'', PInt 42)]) (\<lambda>s.
     py_bind (unpack4 s) (\<lambda>(X_train, X_test, y_train, y_test).
     Return (X_train, X_test, y_train, y_test, enc)))))))"

definition train_model ::
  "pyval \<Rightarrow> pyval \<Rightarrow> pyval \<Rightarrow> pyval \<Rightarrow> pyval \<Rightarrow> pyval \<Rightarrow> (pyval \<times> pyval) prog" where
  "train_model params num_boost_round X_train X_test y_train y_test =
     Call (Fn ''time.time'' [] []) (\<lambda>t1.
     Call (Fn ''lgb.Dataset'' [X_train] [(''label'', y_train)]) (\<lambda>train_data.
     Call (Fn ''lgb.Dataset'' [X_test] [(''label'', y_test)]) (\<lambda>test_data.
     Call (Fn ''lgb.train'' [params, train_data]
            [(''num_boost_round'', num_boost_round),
             (''valid_sets'', PList [test_data]),
             (''valid_names'', PList [PStr ''test''])]) (\<lambda>model.
     Call (Fn ''time.time'' [] []) (\<lambda>t2.
     Call (Method t2 ''__sub__'' [t1] []) (\<lambda>elapsed.
     Return (model, elapsed)))))))"

definition evaluate_model :: "pyval \<Rightarrow> pyval \<Rightarrow> pyval \<Rightarrow> (pyval \<times> pyval) prog" where
  "evaluate_model model X_test y_test =
     Call (Method model ''predict'' [X_test] []) (\<lambda>y_proba.
     Call (Method y_proba ''argmax'' [] [(''axis'', PInt 1)]) (\<lambda>y_pred.
     Call (Fn ''log_loss'' [y_test, y_proba] []) (\<lambda>loss.
     Call (Fn ''accuracy_score'' [y_test, y_pred] []) (\<lambda>acc.
     Return (loss, acc)))))"

definition lgbm_params :: pyval where
  "lgbm_params = PDict
     [(''objective'', PStr ''multiclass''),
      (''num_class'', PInt 3),
      (''learning_rate'', PFloat 1 (-1)),
      (''metric'', PStr ''multi_logloss''),
      (''colsample_bytree'', PFloat 10 (-1)),
      (''subsample'', PFloat 10 (-1)),
      (''seed'', PInt 42)]"

definition lgbm_trial :: "pyval \<Rightarrow> unit prog" where
  "lgbm_trial df =
     Call (ImportFrom ''sklearn.metrics'' [''accuracy_score'', ''log_loss'']) (\<lambda>_.
     py_bind (preprocess_data df) (\<lambda>(X_train, X_test, y_train, y_test, enc).
     let params = lgbm_params; num_boost_round = PInt 32 in
     Call (Fn ''mlflow.start_run'' [] []) (\<lambda>run.
     Call (Fn ''mlflow.lightgbm.autolog'' [] []) (\<lambda>_.
     py_bind (train_model params num_boost_round X_train X_test y_train y_test)
       (\<lambda>(model, train_time).
     Call (Fn ''mlflow.log_metric'' [PStr ''training_time'', train_time] []) (\<lambda>_.
     py_bind (evaluate_model model X_test y_test) (\<lambda>(loss, acc).
     Call (Fn ''mlflow.log_metrics'' [PDict [(''loss'', loss), (''accuracy'', acc)]] []) (\<lambda>_.
     Call (Fn ''mlflow.end_run'' [] []) (\<lambda>r.
     display r)))))))))"

definition lgbm_notebook :: "unit prog" where
  "lgbm_notebook =
     py_bind lgbm_pip_install (\<lambda>_.
     py_bind lgbm_setup_tracking (\<lambda>ws.
     let data_uri = lgbm_data_uri in
     py_bind (lgbm_load_data data_uri) (\<lambda>df.
     py_bind lgbm_imports (\<lambda>_.
     lgbm_trial df))))"

section \<open>The deployment notebook\<close>

text \<open>\<open>python-sdk/tutorials/deploy-with-prebuilt-docker-images/pytorch-prebuilt-docker-image.ipynb\<close>.\<close>

definition deploy_sdk_version :: "unit prog" where
  "deploy_sdk_version =
     Call (Import ''azureml.core'') (\<lambda>azureml_core.
     Call (GetAttr azureml_core ''VERSION'') (\<lambda>version.
     Call (Fn ''print'' [PStr ''SDK version:'', version] []) (\<lambda>_.
     Return ())))"

definition deploy_workspace :: "pyval prog" where
  "deploy_workspace =
     Call (ImportFrom ''azureml.core'' [''Workspace'']) (\<lambda>_.
     Call (Fn ''Workspace.from_config'' [] []) (\<lambda>ws.
     py_bind (display ws) (\<lambda>_.
     Return ws)))"

definition deploy_register_model :: "pyval \<Rightarrow> pyval prog" where
  "deploy_register_model ws =
     Call (ImportFrom ''azureml.core.model'' [''Model'']) (\<lambda>_.
     Call (Fn ''Model.register'' []
            [(''model_name'', PStr ''pytorch-birds-model''),
             (''model_path'', PStr ''pytorch-birds/outputs/model.pt''),
             (''workspace'', ws)]) (\<lambda>model.
     Return model))"

definition deploy_write_requirements :: "unit prog" where
  "deploy_write_requirements =
     Call (Magic ''writefile''
            [''requirements.txt'',
             ''  torchvision==0.7.0'',
             ''  future==0.17.1'',
             ''  pillow==8.1.1'',
             ''  azureml.core==1.28.0'']) (\<lambda>_.
     Return ())"

definition deploy_environment :: "pyval \<Rightarrow> pyval prog" where
  "deploy_environment ws =
     Call (ImportFrom ''azureml.core'' [''Environment'']) (\<lambda>_.
     Call (ImportFrom ''azureml.core.conda_dependencies'' [''CondaDependencies'']) (\<lambda>_.
     Call (Fn ''Environment'' [] [(''name'', PStr ''pytorch-deploy-prebuilt-example'')]) (\<lambda>myenv.
     Call (GetAttr myenv ''docker'') (\<lambda>docker.
     Call (SetAttr docker ''enabled'' (PBool True)) (\<lambda>_.
     Call (GetAttr myenv ''docker'') (\<lambda>docker.
     Call (SetAttr docker ''base_image''
            (PStr ''mcr.microsoft.com/azureml/pytorch-1.6-ubuntu18.04-py37-cpu-inference:latest''))
          (\<lambda>_.
     Call (GetAttr myenv ''python'') (\<lambda>python.
     Call (SetAttr python ''user_managed_dependencies'' (PBool True)) (\<lambda>_.
     Call (Method myenv ''register'' [] [(''workspace'', ws)]) (\<lambda>_.
     Call (SetAttr myenv ''environment_variables''
            (PDict [(''AZUREML_EXTRA_REQUIREMENTS_TXT'', PStr ''requirements.txt'')])) (\<lambda>_.
     Return myenv)))))))))))"

definition deploy_to_aci :: "pyval \<Rightarrow> pyval \<Rightarrow> pyval \<Rightarrow> pyval prog" where
  "deploy_to_aci ws model myenv =
     Call (ImportFrom ''azureml.core.webservice'' [''AciWebservice'']) (\<lambda>_.
     Call (ImportFrom ''azureml.core.model'' [''InferenceConfig'']) (\<lambda>_.
     Call (ImportFrom ''azureml.core.webservice'' [''Webservice'']) (\<lambda>_.
     Call (ImportFrom ''azureml.core.model'' [''Model'']) (\<lambda>_.
     Call (Fn ''InferenceConfig'' []
            [(''entry_script'', PStr ''pytorch_score.py''), (''environment'', myenv)])
          (\<lambda>inference_config.
     Call (SetAttr inference_config ''source_directory'' (PStr ''./'')) (\<lambda>_.
     Call (Fn ''AciWebservice.deploy_configuration'' []
            [(''cpu_cores'', PInt 2),
             (''memory_gb'', PInt 2),
             (''tags'', PDict [(''data'', PStr ''birds''),
                               (''method'', PStr ''transfer learning''),
                               (''framework'', PStr ''pytorch'')]),
             (''description'',
                PStr ''Classify turkey/chickens using transfer learning with PyTorch'')])
          (\<lambda>aciconfig.
     Call (Fn ''Model.deploy'' []
            [(''workspace'', ws),
             (''name'', PStr ''deploy-aci-pytorch''),
             (''models'', PList [model]),
             (''inference_config'', inference_config),
             (''deployment_config'', aciconfig)]) (\<lambda>service.
     Call (Method service ''wait_for_deployment'' [PBool True] []) (\<lambda>_.
     Call (GetAttr service ''state'') (\<lambda>state.
     Call (Fn ''print'' [state] []) (\<lambda>_.
     Return service)))))))))))"

definition deploy_get_logs :: "pyval \<Rightarrow> unit prog" where
  "deploy_get_logs service =
     Call (Method service ''get_logs'' [] []) (\<lambda>logs.
     display logs)"

definition deploy_scoring_uri :: "pyval \<Rightarrow> unit prog" where
  "deploy_scoring_uri service =
     Call (GetAttr service ''scoring_uri'') (\<lambda>uri.
     Call (Fn ''print'' [uri] []) (\<lambda>_.
     Return ()))"

definition deploy_show_image :: "unit prog" where
  "deploy_show_image =
     Call (Import ''json'') (\<lambda>_.
     Call (ImportFrom ''PIL'' [''Image'']) (\<lambda>_.
     Call (Import ''matplotlib.pyplot'') (\<lambda>_.
     Call (Magic ''matplotlib'' [''inline'']) (\<lambda>_.
     Call (Fn ''Image.open'' [PStr ''test_img.jpg''] []) (\<lambda>img.
     Call (Fn ''plt.imshow'' [img] []) (\<lambda>shown.
     display shown))))))"

definition deploy_torch_imports :: "unit prog" where
  "deploy_torch_imports =
     Call (Import ''torch'') (\<lambda>_.
     Call (ImportFrom ''torchvision'' [''transforms'']) (\<lambda>_.
     Return ()))"

definition preprocess :: "pyval \<Rightarrow> pyval prog" where
  "preprocess image_file =
     Call (Fn ''transforms.Resize'' [PInt 256] []) (\<lambda>resize.
     Call (Fn ''transforms.CenterCrop'' [PInt 224] []) (\<lambda>crop.
     Call (Fn ''transforms.ToTensor'' [] []) (\<lambda>to_tensor.
     Call (Fn ''transforms.Normalize''
            [PList [PFloat 485 (-3), PFloat 456 (-3), PFloat 406 (-3)],
             PList [PFloat 229 (-3), PFloat 224 (-3), PFloat 225 (-3)]] []) (\<lambda>normalize.
     Call (Fn ''transforms.Compose'' [PList [resize, crop, to_tensor, normalize]] [])
          (\<lambda>data_transforms.
     Call (Fn ''Image.open'' [image_file] []) (\<lambda>image.
     Call (Method data_transforms ''__call__'' [image] []) (\<lambda>transformed.
     Call (Method transformed ''float'' [] []) (\<lambda>image.
     Call (Fn ''torch.tensor'' [image] []) (\<lambda>image.
     Call (Method image ''unsqueeze'' [PInt 0] []) (\<lambda>image.
     Call (Method image ''numpy'' [] []) (\<lambda>array.
     Return array)))))))))))"

definition deploy_test_service :: "pyval \<Rightarrow> unit prog" where
  "deploy_test_service service =
     py_bind (preprocess (PStr ''test_img.jpg'')) (\<lambda>input_data.
     Call (Method input_data ''tolist'' [] []) (\<lambda>data.
     Call (Fn ''json.dumps'' [PDict [(''data'', data)]] []) (\<lambda>body.
     Call (Method service ''run'' [] [(''input_data'', body)]) (\<lambda>result.
     Call (Fn ''print'' [result] []) (\<lambda>_.
     Return ())))))"

definition deploy_clean_up :: "pyval \<Rightarrow> unit prog" where
  "deploy_clean_up service =
     Call (Method service ''delete'' [] []) (\<lambda>r.
     display r)"

definition deploy_notebook :: "unit prog" where
  "deploy_notebook =
     py_bind deploy_sdk_version (\<lambda>_.
     py_bind deploy_workspace (\<lambda>ws.
     py_bind (deploy_register_model ws) (\<lambda>model.
     py_bind deploy_write_requirements (\<lambda>_.
     py_bind (deploy_environment ws) (\<lambda>myenv.
     py_bind (deploy_to_aci ws model myenv) (\<lambda>service.
     py_bind (deploy_get_logs service) (\<lambda>_.
     py_bind (deploy_scoring_uri service) (\<lambda>_.
     py_bind deploy_show_image (\<lambda>_.
     py_bind deploy_torch_imports (\<lambda>_.
     py_bind (deploy_test_service service) (\<lambda>_.
     deploy_clean_up service)))))))))))"

section \<open>The data-exploration notebook\<close>

text \<open>The Dask notebook that follows the deployment notebook in the same source file. Its
  variables are rebound from cell to cell; each cell takes the ones it reads and returns
  the ones it binds.\<close>

definition dask_pip_install :: "unit prog" where
  "dask_pip_install =
     Call (Shell (''pip install --upgrade dask distributed dask-sql bokeh adlfs fsspec '' @
                  ''fastparquet pyarrow python-snappy lz4 \"pandas>=1.2.0\"'')) (\<lambda>_.
     Return ())"

definition dask_workspace :: "pyval prog" where
  "dask_workspace =
     Call (ImportFrom ''azureml.core'' [''Workspace'']) (\<lambda>_.
     Call (Fn ''Workspace.from_config'' [] []) (\<lambda>ws.
     py_bind (display ws) (\<lambda>_.
     Return ws)))"

definition dask_client :: "pyval prog" where
  "dask_client =
     Call (ImportFrom ''distributed'' [''Client'']) (\<lambda>_.
     Call (Fn ''Client'' [] []) (\<lambda>c.
     Call (Fn ''print'' [c] []) (\<lambda>_.
     Call (GetAttr c ''dashboard_link'') (\<lambda>link.
     Call (Fn ''print'' [link] []) (\<lambda>_.
     py_bind (display c) (\<lambda>_.
     Return c))))))"

definition dask_public_names :: "pyval \<times> pyval \<times> pyval" where
  \<comment> \<open>\<open>account_name\<close>, \<open>container_name\<close>, \<open>storage_options\<close>\<close>
  "dask_public_names =
     (let account_name = PStr ''azuremlexamples'';
          container_name = PStr ''datasets'';
          storage_options = PDict [(''account_name'', account_name)]
      in (account_name, container_name, storage_options))"

definition dask_https_uri :: "pyval \<Rightarrow> pyval \<Rightarrow> pyval prog" where
  "dask_https_uri account_name container_name =
     py_bind (fstring [Lit ''https://'', Interp account_name, Lit ''.blob.core.windows.net/'',
                       Interp container_name, Lit ''/iris.csv'']) (\<lambda>data_uri.
     py_bind (display (PStr data_uri)) (\<lambda>_.
     Return (PStr data_uri)))"

definition dask_read_csv :: "pyval \<Rightarrow> pyval prog" where
  "dask_read_csv data_uri =
     Call (Import ''pandas'') (\<lambda>_.
     Call (Fn ''pd.read_csv'' [data_uri] []) (\<lambda>df.
     py_bind (display df) (\<lambda>_.
     Return df)))"

definition dask_az_uri :: "pyval \<Rightarrow> pyval prog" where
  "dask_az_uri container_name =
     py_bind (fstring [Lit ''az://'', Interp container_name, Lit ''/iris.csv'']) (\<lambda>data_uri.
     py_bind (display (PStr data_uri)) (\<lambda>_.
     Return (PStr data_uri)))"

definition dask_read_csv_az :: "pyval \<Rightarrow> pyval \<Rightarrow> pyval prog" where
  "dask_read_csv_az data_uri storage_options =
     Call (Import ''pandas'') (\<lambda>_.
     Call (Fn ''pd.read_csv'' [data_uri] [(''storage_options'', storage_options)]) (\<lambda>df.
     py_bind (display df) (\<lambda>_.
     Return df)))"

definition dask_private_data :: "pyval \<Rightarrow> (pyval \<times> pyval \<times> pyval) prog" where
  \<comment> \<open>returns \<open>container_name\<close>, \<open>storage_options\<close>, \<open>fs\<close>\<close>
  "dask_private_data ws =
     Call (ImportFrom ''adlfs'' [''AzureBlobFileSystem'']) (\<lambda>_.
     Call (Method ws ''get_default_datastore'' [] []) (\<lambda>ds.
     Call (GetAttr ds ''container_name'') (\<lambda>container_name.
     Call (GetAttr ds ''account_name'') (\<lambda>account_name.
     Call (GetAttr ds ''account_key'') (\<lambda>account_key.
     let storage_options = [(''account_name'', account_name), (''account_key'', account_key)] in
     Call (Fn ''AzureBlobFileSystem'' [] storage_options) (\<lambda>fs.
     py_bind (display fs) (\<lambda>_.
     Return (container_name, PDict storage_options, fs))))))))"

definition dask_ls_container :: "pyval \<Rightarrow> pyval \<Rightarrow> unit prog" where
  "dask_ls_container fs container_name =
     py_bind (fstring [Interp container_name]) (\<lambda>path.
     Call (Method fs ''ls'' [PStr path] []) (\<lambda>listing.
     display listing))"

definition dask_open_names :: "pyval \<times> pyval \<times> (string \<times> pyval) list" where
  \<comment> \<open>\<open>color\<close>, \<open>container_name\<close>, \<open>storage_options\<close>\<close>
  "dask_open_names =
     (PStr ''green'', PStr ''nyctlc'', [(''account_name'', PStr ''azureopendatastorage'')])"

definition dask_open_fs :: "(string \<times> pyval) list \<Rightarrow> pyval prog" where
  "dask_open_fs storage_options =
     Call (Fn ''AzureBlobFileSystem'' [] storage_options) (\<lambda>fs.
     py_bind (display fs) (\<lambda>_.
     Return fs))"

definition dask_ls_color :: "pyval \<Rightarrow> pyval \<Rightarrow> pyval \<Rightarrow> unit prog" where
  "dask_ls_color fs container_name color =
     py_bind (fstring [Interp container_name, Lit ''/'', Interp color]) (\<lambda>path.
     Call (Method fs ''ls'' [PStr path] []) (\<lambda>listing.
     display listing))"

definition dask_ls_year :: "pyval \<Rightarrow> pyval \<Rightarrow> pyval \<Rightarrow> unit prog" where
  "dask_ls_year fs container_name color =
     py_bind (fstring [Interp container_name, Lit ''/'', Interp color, Lit ''/puYear=2016/''])
       (\<lambda>path.
     Call (Method fs ''ls'' [PStr path] []) (\<lambda>listing.
     display listing))"

definition dask_glob_files :: "pyval \<Rightarrow> pyval \<Rightarrow> pyval \<Rightarrow> pyval prog" where
  "dask_glob_files fs container_name color =
     py_bind (fstring [Interp container_name, Lit ''/'', Interp color,
                       Lit ''/puYear=2016/puMonth=12/*.parquet'']) (\<lambda>pattern.
     Call (Method fs ''glob'' [PStr pattern] []) (\<lambda>files.
     py_bind (py_iter files) (\<lambda>found.
     py_bind (py_map (\<lambda>file. fstring [Lit ''az://'', Interp file]) found) (\<lambda>uris.
     let files = map PStr uris in
     py_bind (display (PList (last_n 5 files))) (\<lambda>_.
     Return (PList files))))))"

definition dask_read_parquet :: "pyval \<Rightarrow> (string \<times> pyval) list \<Rightarrow> pyval prog" where
  "dask_read_parquet files storage_options =
     Call (Import ''dask.dataframe'') (\<lambda>_.
     Call (Fn ''dd.read_parquet'' [files] [(''storage_options'', PDict storage_options)])
          (\<lambda>frame.
     Call (Method frame ''repartition'' [] [(''npartitions'', PInt 8)]) (\<lambda>parts.
     Call (Method parts ''persist'' [] []) (\<lambda>ddf.
     py_bind (display ddf) (\<lambda>_.
     Return ddf)))))"

definition dask_len :: "pyval \<Rightarrow> unit prog" where
  "dask_len ddf =
     Call (Magic ''time'' []) (\<lambda>_.
     Call (Fn ''len'' [ddf] []) (\<lambda>n.
     display n))"

definition dask_info :: "pyval \<Rightarrow> unit prog" where
  "dask_info ddf =
     Call (Method ddf ''info'' [] []) (\<lambda>r.
     display r)"

definition dask_histogram :: "pyval \<Rightarrow> unit prog" where
  "dask_histogram ddf =
     Call (Import ''matplotlib.pyplot'') (\<lambda>_.
     Call (Fn ''plt.style.use'' [PStr ''dark_background''] []) (\<lambda>_.
     Call (Method ddf ''__getitem__'' [PStr ''tipAmount''] []) (\<lambda>column.
     Call (Method column ''compute'' [] []) (\<lambda>tips.
     Call (Method tips ''hist'' []
            [(''figsize'', PTuple [PInt 16, PInt 8]),
             (''bins'', PInt 256),
             (''range'', PTuple [PFloat 1 (-1), PInt 20])]) (\<lambda>axes.
     display axes)))))"

definition dask_compute :: "pyval \<Rightarrow> pyval prog" where
  "dask_compute ddf =
     Call (Method ddf ''compute'' [] []) (\<lambda>df.
     Call (Method df ''info'' [] []) (\<lambda>r.
     py_bind (display r) (\<lambda>_.
     Return df)))"

definition dask_describe :: "pyval \<Rightarrow> unit prog" where
  "dask_describe df =
     Call (Magic ''time'' []) (\<lambda>_.
     Call (Method df ''describe'' [] []) (\<lambda>r.
     display r))"

definition dask_df_size :: "pyval \<Rightarrow> unit prog" where
  "dask_df_size df =
     Call (Magic ''time'' []) (\<lambda>_.
     Call (Method df ''memory_usage'' [] [(''index'', PBool True), (''deep'', PBool True)])
          (\<lambda>usage.
     Call (Method usage ''sum'' [] []) (\<lambda>total.
     Call (Method total ''__truediv__'' [PFloat 1 9] []) (\<lambda>quotient.
     Call (Fn ''round'' [quotient, PInt 2] []) (\<lambda>gbs.
     py_bind (fstring [Lit ''df is '', Interp gbs, Lit '' GBs'']) (\<lambda>line.
     Call (Fn ''print'' [PStr line] []) (\<lambda>_.
     Return ())))))))"

definition dask_ddf_size :: "pyval \<Rightarrow> unit prog" where
  "dask_ddf_size ddf =
     Call (Magic ''time'' []) (\<lambda>_.
     Call (Method ddf ''memory_usage'' [] [(''index'', PBool True), (''deep'', PBool True)])
          (\<lambda>usage.
     Call (Method usage ''sum'' [] []) (\<lambda>total.
     Call (Method total ''compute'' [] []) (\<lambda>bytes.
     Call (Method bytes ''__truediv__'' [PFloat 1 9] []) (\<lambda>quotient.
     Call (Fn ''round'' [quotient, PInt 2] []) (\<lambda>gbs.
     py_bind (fstring [Lit ''ddf is '', Interp gbs, Lit '' GBs'']) (\<lambda>line.
     Call (Fn ''print'' [PStr line] []) (\<lambda>_.
     Return ()))))))))"

definition dask_explore :: "pyval \<Rightarrow> (string \<times> pyval) list \<Rightarrow> unit prog" where
  \<comment> \<open>the cells that build and use the distributed dataframe\<close>
  "dask_explore files storage_options =
     py_bind (dask_read_parquet files storage_options) (\<lambda>ddf.
     py_bind (dask_len ddf) (\<lambda>_.
     py_bind (dask_len ddf) (\<lambda>_.
     py_bind (dask_info ddf) (\<lambda>_.
     py_bind (dask_histogram ddf) (\<lambda>_.
     py_bind (dask_compute ddf) (\<lambda>df.
     py_bind (dask_describe df) (\<lambda>_.
     py_bind (dask_df_size df) (\<lambda>_.
     dask_ddf_size ddf))))))))"

definition dask_locate :: "(pyval \<times> (string \<times> pyval) list) prog" where
  \<comment> \<open>the cells before: they end with \<open>files\<close> and \<open>storage_options\<close> bound\<close>
  "dask_locate =
     py_bind dask_pip_install (\<lambda>_.
     py_bind dask_workspace (\<lambda>ws.
     py_bind dask_client (\<lambda>c.
     (case dask_public_names of (account_name, container_name, storage_options) \<Rightarrow>
     py_bind (dask_https_uri account_name container_name) (\<lambda>data_uri.
     py_bind (dask_read_csv data_uri) (\<lambda>df.
     py_bind (dask_az_uri container_name) (\<lambda>data_uri.
     py_bind (dask_read_csv_az data_uri storage_options) (\<lambda>df.
     py_bind (dask_private_data ws) (\<lambda>(container_name, storage_options, fs).
     py_bind (dask_ls_container fs container_name) (\<lambda>_.
     (case dask_open_names of (color, container_name, storage_options) \<Rightarrow>
     py_bind (dask_open_fs storage_options) (\<lambda>fs.
     py_bind (dask_ls_container fs container_name) (\<lambda>_.
     py_bind (dask_ls_color fs container_name color) (\<lambda>_.
     py_bind (dask_ls_year fs container_name color) (\<lambda>_.
     py_bind (dask_glob_files fs container_name color) (\<lambda>files.
     Return (files, storage_options)))))))))))))))))"

definition dask_notebook :: "unit prog" where
  "dask_notebook =
     py_bind dask_locate (\<lambda>(files, storage_options).
     dask_explore files storage_options)"

section \<open>Properties of executions\<close>

subsection \<open>Propagation of exceptions\<close>



subsection \<open>Reasoning about every execution\<close>

text \<open>
  \<open>wpf step p Q s\<close>: whatever the library answers, running \<open>p\<close> ends with an outcome \<open>r\<close> and,
  when \<open>s\<close> summarises the calls made before (\<open>step\<close> adds one call to a summary), with a
  summary \<open>s'\<close> of all calls such that \<open>Q r s'\<close>. With \<open>wp\<close> the summary is the trace itself.
\<close>

primrec wpf ::
  "('s \<Rightarrow> call \<times> (exn + pyval) \<Rightarrow> 's) \<Rightarrow> 'a prog \<Rightarrow> (exn + 'a \<Rightarrow> 's \<Rightarrow> bool) \<Rightarrow> 's \<Rightarrow> bool" where
  "wpf step (Return a) Q s = Q (Inr a) s"
| "wpf step (Raise e) Q s = Q (Inl e) s"
| "wpf step (Perform c k) Q s = (\<forall>r. wpf step (k r) Q (step s (c, r)))"

definition snoc :: "'a list \<Rightarrow> 'a \<Rightarrow> 'a list" where
  "snoc xs x = xs @ [x]"

abbreviation wp :: "'a prog \<Rightarrow> (exn + 'a \<Rightarrow> trace \<Rightarrow> bool) \<Rightarrow> trace \<Rightarrow> bool" where
  "wp \<equiv> wpf snoc"

definition collect ::
  "(call \<times> (exn + pyval) \<Rightarrow> 'b option) \<Rightarrow> 'b list \<Rightarrow> call \<times> (exn + pyval) \<Rightarrow> 'b list" where
  \<comment> \<open>summary of a trace: what \<open>pick\<close> selects from its entries, in order\<close>
  "collect pick xs entry = (case pick entry of None \<Rightarrow> xs | Some x \<Rightarrow> xs @ [x])"

subsection \<open>A library in which every call succeeds\<close>

definition sample_library :: library where
  \<comment> \<open>every call returns: a split returns four parts, a file search returns paths,
      formatting returns text, anything else returns a new object\<close>
  "sample_library n c =
     (case c of
        Fn f args kw \<Rightarrow>
          (if f = ''train_test_split''
           then Inr (PList [PObj ''X_train'' [], PObj ''X_test'' [],
                            PObj ''y_train'' [], PObj ''y_test'' []])
           else if f = ''format'' then Inr (PStr ''0.0'')
           else Inr (PObj f [PInt (int n)]))
      | Method obj m args kw \<Rightarrow>
          (if m = ''glob''
           then Inr (PList [PStr ''nyctlc/green/puYear=2016/puMonth=12/part-0.parquet''])
           else Inr (PObj m [PInt (int n)]))
      | GetAttr obj name \<Rightarrow> Inr (PObj name [PInt (int n)])
      | _ \<Rightarrow> Inr PNone)"

subsection \<open>The tracking calls of the LightGBM notebook\<close>

definition py_get :: "pyval \<Rightarrow> string \<Rightarrow> pyval option" where
  \<comment> \<open>\<open>d[k]\<close> for a dictionary, when the key is there\<close>
  "py_get d k = (case d of PDict kvs \<Rightarrow> map_of kvs k | _ \<Rightarrow> None)"

definition tracking_name :: "call \<Rightarrow> string option" where
  \<comment> \<open>the name of a call into the experiment-tracking client, \<open>mlflow\<close>\<close>
  "tracking_name c =
     (case c of
        Fn f args kw \<Rightarrow> (if take 7 f = ''mlflow.'' then Some f else None)
      | _ \<Rightarrow> None)"

definition tracking_names :: "trace \<Rightarrow> string list" where
  "tracking_names tr = List.map_filter tracking_name (map fst tr)"

definition within_run :: "string list \<Rightarrow> string list" where
  \<comment> \<open>the tracking calls after the first \<open>mlflow.start_run\<close> and before the
      \<open>mlflow.end_run\<close> that follows it\<close>
  "within_run names =
     takeWhile (\<lambda>f. f \<noteq> ''mlflow.end_run'')
       (drop 1 (dropWhile (\<lambda>f. f \<noteq> ''mlflow.start_run'') names))"

definition only_metrics_in_run :: "string list \<Rightarrow> bool" where
  \<comment> \<open>every tracking call between the start and the end of the run logs metrics\<close>
  "only_metrics_in_run names =
     list_all (\<lambda>f. f = ''mlflow.log_metric'' \<or> f = ''mlflow.log_metrics'') (within_run names)"

subsection \<open>Training and its metrics in the LightGBM notebook\<close>

definition trained_and_logged :: "trace \<Rightarrow> bool" where
  \<comment> \<open>the trace holds, in this order and with these values passed along: the data set is
      read and split, a model is trained on the training part with the notebook's
      parameters, the training time is logged, and the log-loss and accuracy of that model
      on the test part are computed and logged\<close>
  "trained_and_logged tr =
     (\<exists>df X y0 enc y s X_train X_test y_train y_test t1 train_data test_data model t2
         train_time y_proba y_pred loss acc logged logged'.
        items s = Some [X_train, X_test, y_train, y_test] \<and>
        subseq
          [(Fn ''pd.read_csv'' [lgbm_data_uri] [], Inr df),
           (Method df ''drop'' [PList [PStr ''species'']] [(''axis'', PInt 1)], Inr X),
           (Method df ''__getitem__'' [PStr ''species''] [], Inr y0),
           (Fn ''LabelEncoder'' [] [], Inr enc),
           (Method enc ''fit_transform'' [y0] [], Inr y),
           (Fn ''train_test_split'' [X, y]
              [(''test_size'', PFloat 2 (-1)), (''random_state'', PInt 42)], Inr s),
           (Fn ''time.time'' [] [], Inr t1),
           (Fn ''lgb.Dataset'' [X_train] [(''label'', y_train)], Inr train_data),
           (Fn ''lgb.Dataset'' [X_test] [(''label'', y_test)], Inr test_data),
           (Fn ''lgb.train'' [lgbm_params, train_data]
              [(''num_boost_round'', PInt 32),
               (''valid_sets'', PList [test_data]),
               (''valid_names'', PList [PStr ''test''])], Inr model),
           (Fn ''time.time'' [] [], Inr t2),
           (Method t2 ''__sub__'' [t1] [], Inr train_time),
           (Fn ''mlflow.log_metric'' [PStr ''training_time'', train_time] [], Inr logged),
           (Method model ''predict'' [X_test] [], Inr y_proba),
           (Method y_proba ''argmax'' [] [(''axis'', PInt 1)], Inr y_pred),
           (Fn ''log_loss'' [y_test, y_proba] [], Inr loss),
           (Fn ''accuracy_score'' [y_test, y_pred] [], Inr acc),
           (Fn ''mlflow.log_metrics'' [PDict [(''loss'', loss), (''accuracy'', acc)]] [],
              Inr logged')]
          tr)"

subsection \<open>The steps of the deployment notebook\<close>

datatype step = Register | Package | Deploy | Invoke | Delete

definition step_of :: "call \<Rightarrow> step option" where
  "step_of c =
     (case c of
        Fn f args kw \<Rightarrow>
          (if f = ''Model.register'' then Some Register
           else if f = ''InferenceConfig'' then Some Package
           else if f = ''Model.deploy'' then Some Deploy
           else None)
      | Method obj m args kw \<Rightarrow>
          (if m = ''run'' then Some Invoke
           else if m = ''delete'' then Some Delete
           else None)
      | _ \<Rightarrow> None)"

definition steps :: "trace \<Rightarrow> step list" where
  "steps tr = List.map_filter step_of (map fst tr)"

definition deployed_and_deleted :: "trace \<Rightarrow> bool" where
  \<comment> \<open>the trace holds, in this order: the model file is registered, the scoring script is
      packaged with the environment, the registered model is deployed with that package
      and a container-instance configuration, the service that came back is awaited,
      invoked and deleted\<close>
  "deployed_and_deleted tr =
     (\<exists>ws model myenv inference_config aciconfig service waited body result deleted.
        subseq
          [(Fn ''Workspace.from_config'' [] [], Inr ws),
           (Fn ''Model.register'' []
              [(''model_name'', PStr ''pytorch-birds-model''),
               (''model_path'', PStr ''pytorch-birds/outputs/model.pt''),
               (''workspace'', ws)], Inr model),
           (Fn ''Environment'' [] [(''name'', PStr ''pytorch-deploy-prebuilt-example'')],
              Inr myenv),
           (Fn ''InferenceConfig'' []
              [(''entry_script'', PStr ''pytorch_score.py''), (''environment'', myenv)],
              Inr inference_config),
           (Fn ''AciWebservice.deploy_configuration'' []
              [(''cpu_cores'', PInt 2),
               (''memory_gb'', PInt 2),
               (''tags'', PDict [(''data'', PStr ''birds''),
                                 (''method'', PStr ''transfer learning''),
                                 (''framework'', PStr ''pytorch'')]),
               (''description'',
                  PStr ''Classify turkey/chickens using transfer learning with PyTorch'')],
              Inr aciconfig),
           (Fn ''Model.deploy'' []
              [(''workspace'', ws),
               (''name'', PStr ''deploy-aci-pytorch''),
               (''models'', PList [model]),
               (''inference_config'', inference_config),
               (''deployment_config'', aciconfig)], Inr service),
           (Method service ''wait_for_deployment'' [PBool True] [], Inr waited),
           (Method service ''run'' [] [(''input_data'', body)], Inr result),
           (Method service ''delete'' [] [], Inr deleted)]
          tr)"

subsection \<open>The distributed dataframe of the data-exploration notebook\<close>

definition builds_frame :: "call \<Rightarrow> bool" where
  \<comment> \<open>the calls whose result is the distributed dataframe handle\<close>
  "builds_frame c =
     (case c of
        Fn f args kw \<Rightarrow> f = ''dd.read_parquet''
      | Method obj m args kw \<Rightarrow> m = ''repartition'' \<or> m = ''persist''
      | _ \<Rightarrow> False)"

definition dataframes :: "trace \<Rightarrow> pyval list" where
  "dataframes tr =
     List.map_filter
       (\<lambda>entry. case snd entry of
                   Inr v \<Rightarrow> (if builds_frame (fst entry) then Some v else None)
                 | Inl e \<Rightarrow> None)
       tr"

definition subject :: "call \<Rightarrow> pyval option" where
  \<comment> \<open>the object a call operates on\<close>
  "subject c =
     (case c of
        Method obj m args kw \<Rightarrow> Some obj
      | GetAttr obj name \<Rightarrow> Some obj
      | SetAttr obj name v \<Rightarrow> Some obj
      | Display v \<Rightarrow> Some v
      | Fn f args kw \<Rightarrow> (if f = ''len'' then Some (hd args) else None)
      | _ \<Rightarrow> None)"

definition frame_operations :: "trace \<Rightarrow> call list" where
  "frame_operations tr =
     filter (\<lambda>c. case subject c of
                   Some v \<Rightarrow> v \<in> set (dataframes tr)
                 | None \<Rightarrow> False)
       (map fst tr)"

definition persists_or_inspects :: "call \<Rightarrow> bool" where
  \<comment> \<open>\<open>.persist()\<close> and \<open>.compute()\<close> materialise a dataframe, \<open>len\<close> and \<open>.info()\<close> examine it\<close>
  "persists_or_inspects c =
     (case c of
        Method obj m args kw \<Rightarrow> m = ''persist'' \<or> m = ''compute'' \<or> m = ''info''
      | Fn f args kw \<Rightarrow> f = ''len''
      | _ \<Rightarrow> False)"

definition is_compute :: "call \<Rightarrow> bool" where
  "is_compute c = (case c of Method obj m args kw \<Rightarrow> m = ''compute'' | _ \<Rightarrow> False)"

definition only_compute_reveals :: "trace \<Rightarrow> bool" where
  \<comment> \<open>no operation on the handle other than \<open>.compute()\<close> materialises or examines it\<close>
  "only_compute_reveals tr =
     list_all (\<lambda>c. \<not> persists_or_inspects c \<or> is_compute c) (frame_operations tr)"

definition formatting :: "call \<times> (exn + pyval) \<Rightarrow> bool" where
  "formatting entry = (case fst entry of Fn f args kw \<Rightarrow> f = ''format'' | _ \<Rightarrow> False)"

definition without_formatting :: "trace \<Rightarrow> trace" where
  "without_formatting tr = filter (\<lambda>entry. \<not> formatting entry) tr"

definition explored :: "pyval \<Rightarrow> (string \<times> pyval) list \<Rightarrow> trace \<Rightarrow> bool" where
  \<comment> \<open>the calls of the cells that build and use the dataframe, with the values passed
      along; \<open>ddf\<close> is the handle\<close>
  "explored files storage_options tr =
     (\<exists>frame parts ddf n n' described column tips axes df described' summary
         usage total quotient gbs text usage' total' bytes quotient' gbs' text'
         v1 v2 v3 v4 v5 v6 v7 v8 v9 v10 v11 v12 v13 v14 v15 v16 v17.
        tr =
        [(Import ''dask.dataframe'', Inr v1),
         (Fn ''dd.read_parquet'' [files] [(''storage_options'', PDict storage_options)],
            Inr frame),
         (Method frame ''repartition'' [] [(''npartitions'', PInt 8)], Inr parts),
         (Method parts ''persist'' [] [], Inr ddf),
         (Display ddf, Inr v2),
         (Magic ''time'' [], Inr v3),
         (Fn ''len'' [ddf] [], Inr n),
         (Display n, Inr v4),
         (Magic ''time'' [], Inr v5),
         (Fn ''len'' [ddf] [], Inr n'),
         (Display n', Inr v6),
         (Method ddf ''info'' [] [], Inr described),
         (Display described, Inr v7),
         (Import ''matplotlib.pyplot'', Inr v8),
         (Fn ''plt.style.use'' [PStr ''dark_background''] [], Inr v9),
         (Method ddf ''__getitem__'' [PStr ''tipAmount''] [], Inr column),
         (Method column ''compute'' [] [], Inr tips),
         (Method tips ''hist'' []
            [(''figsize'', PTuple [PInt 16, PInt 8]),
             (''bins'', PInt 256),
             (''range'', PTuple [PFloat 1 (-1), PInt 20])], Inr axes),
         (Display axes, Inr v10),
         (Method ddf ''compute'' [] [], Inr df),
         (Method df ''info'' [] [], Inr described'),
         (Display described', Inr v11),
         (Magic ''time'' [], Inr v12),
         (Method df ''describe'' [] [], Inr summary),
         (Display summary, Inr v13),
         (Magic ''time'' [], Inr v14),
         (Method df ''memory_usage'' [] [(''index'', PBool True), (''deep'', PBool True)],
            Inr usage),
         (Method usage ''sum'' [] [], Inr total),
         (Method total ''__truediv__'' [PFloat 1 9] [], Inr quotient),
         (Fn ''round'' [quotient, PInt 2] [], Inr gbs),
         (Fn ''print'' [PStr (''df is '' @ text @ '' GBs'')] [], Inr v15),
         (Magic ''time'' [], Inr v16),
         (Method ddf ''memory_usage'' [] [(''index'', PBool True), (''deep'', PBool True)],
            Inr usage'),
         (Method usage' ''sum'' [] [], Inr total'),
         (Method total' ''compute'' [] [], Inr bytes),
         (Method bytes ''__truediv__'' [PFloat 1 9] [], Inr quotient'),
         (Fn ''round'' [quotient', PInt 2] [], Inr gbs'),
         (Fn ''print'' [PStr (''ddf is '' @ text' @ '' GBs'')] [], Inr v17)])"

section \<open>The CI workflows\<close>

text \<open>
  \<open>.github/workflows/smoke.yml\<close> and the workflow \<open>cli-docs-how-to-configure-cli\<close>. A
  workflow has triggers and one job, \<open>build\<close>, whose steps either use a packaged action
  or run a shell command line.
\<close>

datatype sh =
    Cmd "string list"  \<comment> \<open>a simple command: its words\<close>
  | AndThen sh sh  \<comment> \<open>\<open>a && b\<close>\<close>
  | Semi sh sh  \<comment> \<open>\<open>a; b\<close>\<close>

datatype trigger =
    OnPush "string list"  \<comment> \<open>branches\<close>
  | OnPullRequest "string list" "string list"  \<comment> \<open>branches, paths (none given: every path)\<close>
  | OnSchedule string  \<comment> \<open>cron expression\<close>

datatype action =
    Uses string "(string \<times> string) list"  \<comment> \<open>\<open>uses:\<close> and \<open>with:\<close>\<close>
  | Run sh "string option"  \<comment> \<open>\<open>run:\<close> and \<open>working-directory:\<close>\<close>

record ci_step =
  step_name :: string
  step_action :: action

record workflow =
  wf_name :: string
  wf_on :: "trigger list"
  wf_runs_on :: string
  wf_steps :: "ci_step list"

definition smoke :: workflow where
  "smoke =
     \<lparr>wf_name = ''smoke'',
      wf_on = [OnPush [''main''], OnPullRequest [''main''] [], OnSchedule ''0 0/1 * * *''],
      wf_runs_on = ''ubuntu-latest'',
      wf_steps =
        [\<lparr>step_name = ''check out repo'', step_action = Uses ''actions/checkout@v2'' []\<rparr>,
         \<lparr>step_name = ''setup python'',
          step_action = Uses ''actions/setup-python@v2'' [(''python-version'', ''3.8'')]\<rparr>,
         \<lparr>step_name = ''pip install'',
          step_action = Run (Cmd [''pip'', ''install'', ''-r'', ''dev-requirements.txt'']) None\<rparr>,
         \<lparr>step_name = ''check code format'',
          step_action = Run (Cmd [''black'', ''--check'', ''.'']) None\<rparr>,
         \<lparr>step_name = ''check notebook format'',
          step_action = Run (Cmd [''black-nb'', ''--clear-output'', ''--check'', ''.'']) None\<rparr>]\<rparr>"

definition cli_docs :: workflow where
  "cli_docs =
     \<lparr>wf_name = ''cli-docs-how-to-configure-cli'',
      wf_on =
        [OnSchedule ''0 0/4 * * *'',
         OnPullRequest [''main'', ''cli-preview'']
           [''cli/how-to-configure-cli.sh'',
            ''.github/workflows/cli-docs-how-to-configure-cli.yml'']],
      wf_runs_on = ''ubuntu-latest'',
      wf_steps =
        [\<lparr>step_name = ''check out repo'', step_action = Uses ''actions/checkout@v2'' []\<rparr>,
         \<lparr>step_name = ''azure login'',
          step_action = Uses ''azure/login@v1'' [(''creds'', ''${{secrets.AZ_AE_CREDS}}'')]\<rparr>,
         \<lparr>step_name = ''install ml cli'',
          step_action = Run (Cmd [''az'', ''extension'', ''add'', ''-n'', ''ml'', ''-y'']) None\<rparr>,
         \<lparr>step_name = ''setup workspace'',
          step_action = Run (Cmd [''bash'', ''setup.sh'']) (Some ''cli'')\<rparr>,
         \<lparr>step_name = ''docs installs'',
          step_action =
            Run (AndThen (Cmd [''sudo'', ''apt-get'', ''upgrade'', ''-y''])
                         (Cmd [''sudo'', ''apt-get'', ''install'', ''uuid-runtime'', ''jq'', ''-y'']))
                None\<rparr>,
         \<lparr>step_name = ''test doc script'',
          step_action =
            Run (Semi (Cmd [''set'', ''-e'']) (Cmd [''bash'', ''-x'', ''how-to-configure-cli.sh'']))
                (Some ''cli'')\<rparr>]\<rparr>"

subsection \<open>Triggers\<close>

datatype gh_event =
    Pushed string  \<comment> \<open>a push to a branch\<close>
  | PullRequested string "string list"  \<comment> \<open>a pull request against a branch, the paths it changes\<close>
  | Tick string  \<comment> \<open>the scheduler reaching a time that a cron expression names\<close>

fun matches :: "trigger \<Rightarrow> gh_event \<Rightarrow> bool" where
  "matches (OnPush branches) (Pushed b) = (b \<in> set branches)"
| "matches (OnPullRequest branches paths) (PullRequested b changed) =
     (b \<in> set branches \<and> (paths = [] \<or> list_ex (\<lambda>p. p \<in> set paths) changed))"
| "matches (OnSchedule cron) (Tick cron') = (cron = cron')"
| "matches _ _ = False"

definition triggered :: "workflow \<Rightarrow> gh_event \<Rightarrow> bool" where
  "triggered flow ev = list_ex (\<lambda>t. matches t ev) (wf_on flow)"

subsection \<open>Running a job\<close>

text \<open>
  What commands and actions do is outside the repository: a runner says which exit code
  each one returns and how it changes the world (the checked-out files, the cloud
  account), and which script a file name stands for. \<open>how-to-configure-cli.sh\<close> and
  \<open>setup.sh\<close> are not among the sources, so the scripts are a parameter as well.
\<close>

record 'w runner =
  run_command :: "string option \<Rightarrow> string list \<Rightarrow> 'w \<Rightarrow> int \<times> 'w"
  run_action :: "string \<Rightarrow> (string \<times> string) list \<Rightarrow> 'w \<Rightarrow> int \<times> 'w"
  find_script :: "'w \<Rightarrow> string option \<Rightarrow> string \<Rightarrow> sh option"

record 'w shell =
  errexit :: bool  \<comment> \<open>\<open>set -e\<close> is in force\<close>
  status :: int  \<comment> \<open>exit code of the last command\<close>
  exited :: bool  \<comment> \<open>the shell has stopped\<close>
  executed :: "(string list \<times> int) list"  \<comment> \<open>the external commands run, with their exit codes\<close>
  world :: 'w

definition new_shell :: "bool \<Rightarrow> 'w \<Rightarrow> 'w shell" where
  "new_shell e w = \<lparr>errexit = e, status = 0, exited = False, executed = [], world = w\<rparr>"

primrec sh_exec ::
  "(string list \<Rightarrow> 'w shell \<Rightarrow> 'w shell) \<Rightarrow> sh \<Rightarrow> bool \<Rightarrow> 'w shell \<Rightarrow> 'w shell" where
  \<comment> \<open>bash: under \<open>set -e\<close> a failing command stops the shell, unless it stands to the left
      of \<open>&&\<close> (\<open>guarded\<close>)\<close>
  "sh_exec cmd (Cmd argv) guarded s =
     (if exited s then s
      else let s' = cmd argv s
           in s'\<lparr>exited := status s' \<noteq> 0 \<and> errexit s' \<and> \<not> guarded\<rparr>)"
| "sh_exec cmd (AndThen a b) guarded s =
     (let s' = sh_exec cmd a True s
      in if exited s' \<or> status s' \<noteq> 0 then s' else sh_exec cmd b guarded s')"
| "sh_exec cmd (Semi a b) guarded s = sh_exec cmd b guarded (sh_exec cmd a guarded s)"

definition simple_command :: "'w runner \<Rightarrow> string option \<Rightarrow> string list \<Rightarrow> 'w shell \<Rightarrow> 'w shell" where
  \<comment> \<open>\<open>set -e\<close> is a builtin of the shell it is written in; anything else is run\<close>
  "simple_command r cwd argv s =
     (if argv = [''set'', ''-e''] then s\<lparr>errexit := True, status := 0\<rparr>
      else case run_command r cwd argv (world s) of
             (code, w) \<Rightarrow> s\<lparr>status := code, executed := executed s @ [(argv, code)], world := w\<rparr>)"

definition bash_file :: "'w runner \<Rightarrow> string option \<Rightarrow> string list \<Rightarrow> string \<Rightarrow> 'w \<Rightarrow> 'w shell" where
  \<comment> \<open>\<open>bash options file\<close>: a new shell, with the options it is given and none of its
      parent's, runs the script\<close>
  "bash_file r cwd options file w =
     (case find_script r w cwd file of
        None \<Rightarrow> (new_shell False w)\<lparr>status := 127\<rparr>
      | Some body \<Rightarrow>
          sh_exec (simple_command r cwd) body False (new_shell (''-e'' \<in> set options) w))"

definition step_command :: "'w runner \<Rightarrow> string option \<Rightarrow> string list \<Rightarrow> 'w shell \<Rightarrow> 'w shell" where
  "step_command r cwd argv s =
     (if 2 \<le> length argv \<and> hd argv = ''bash''
      then let child = bash_file r cwd (butlast (tl argv)) (last argv) (world s)
           in s\<lparr>status := status child,
                executed := executed s @ executed child @ [(argv, status child)],
                world := world child\<rparr>
      else simple_command r cwd argv s)"

definition run_sh :: "'w runner \<Rightarrow> string option \<Rightarrow> sh \<Rightarrow> 'w \<Rightarrow> 'w shell" where
  \<comment> \<open>a \<open>run:\<close> step: GitHub hands the command line to \<open>bash -e\<close>\<close>
  "run_sh r cwd body w = sh_exec (step_command r cwd) body False (new_shell True w)"

record 'w job =
  step_log :: "(string \<times> int) list"  \<comment> \<open>the steps run, with their exit codes\<close>
  commands :: "(string list \<times> int) list"  \<comment> \<open>the external commands run, with their exit codes\<close>
  after :: 'w

definition run_step :: "'w runner \<Rightarrow> ci_step \<Rightarrow> 'w \<Rightarrow> 'w job" where
  "run_step r st w =
     (case step_action st of
        Uses a args \<Rightarrow>
          (case run_action r a args w of
             (code, w') \<Rightarrow> \<lparr>step_log = [(step_name st, code)], commands = [], after = w'\<rparr>)
      | Run body cwd \<Rightarrow>
          (let s = run_sh r cwd body w
           in \<lparr>step_log = [(step_name st, status s)], commands = executed s, after = world s\<rparr>))"

fun run_steps :: "'w runner \<Rightarrow> ci_step list \<Rightarrow> 'w \<Rightarrow> 'w job" where
  \<comment> \<open>the steps in order; a step that fails ends the job\<close>
  "run_steps r [] w = \<lparr>step_log = [], commands = [], after = w\<rparr>"
| "run_steps r (st # rest) w =
     (let j = run_step r st w
      in if list_all (\<lambda>entry. snd entry = 0) (step_log j)
         then (let j' = run_steps r rest (after j)
               in \<lparr>step_log = step_log j @ step_log j',
                   commands = commands j @ commands j',
                   after = after j'\<rparr>)
         else j)"

definition run_workflow :: "'w runner \<Rightarrow> workflow \<Rightarrow> 'w \<Rightarrow> 'w job" where
  "run_workflow r flow w = run_steps r (wf_steps flow) w"

definition succeeded :: "'w job \<Rightarrow> bool" where
  "succeeded j = list_all (\<lambda>entry. snd entry = 0) (step_log j)"

definition lint_steps :: "ci_step list" where
  \<comment> \<open>the two format checks of the smoke workflow\<close>
  "lint_steps =
     filter (\<lambda>st. step_name st = ''check code format'' \<or> step_name st = ''check notebook format'')
       (wf_steps smoke)"

definition check_only :: "'w runner \<Rightarrow> bool" where
  \<comment> \<open>what the formatters' \<open>--check\<close> option promises: they report, and write nothing\<close>
  "check_only r =
     (\<forall>cwd argv w.
        argv \<noteq> [] \<and> (hd argv = ''black'' \<or> hd argv = ''black-nb'') \<and> ''--check'' \<in> set argv \<longrightarrow>
        snd (run_command r cwd argv w) = w)"

definition walkthrough_step :: ci_step where
  \<comment> \<open>the step \<open>test doc script\<close> of the CLI workflow\<close>
  "walkthrough_step = last (wf_steps cli_docs)"

subsection \<open>Calls that succeed\<close>







definition walkthrough_commands :: "'w runner \<Rightarrow> 'w \<Rightarrow> (string list \<times> int) list" where
  \<comment> \<open>the commands that the script \<open>how-to-configure-cli.sh\<close> runs when the step \<open>test doc
      script\<close> calls it\<close>
  "walkthrough_commands r w =
     executed (bash_file r (Some ''cli'') [''-x''] ''how-to-configure-cli.sh'' w)"

definition sample_runner :: "nat runner" where
  \<comment> \<open>a runner whose world counts the changes made to it: every command and action exits
      with zero; a command changes the world unless it is given \<open>--check\<close>\<close>
  "sample_runner =
     \<lparr>run_command = (\<lambda>cwd argv w. (0, if ''--check'' \<in> set argv then w else Suc w)),
      run_action = (\<lambda>a args w. (0, Suc w)),
      find_script = (\<lambda>w cwd file.
        Some (Semi (Cmd [''az'', ''extension'', ''list''])
                   (Cmd [''az'', ''ml'', ''-h''])))\<rparr>"

definition careless_runner :: "nat runner" where
  \<comment> \<open>as \<open>sample_runner\<close>, but \<open>az extension list\<close> exits with code 1\<close>
  "careless_runner =
     sample_runner\<lparr>run_command :=
       (\<lambda>cwd argv w. (if argv = [''az'', ''extension'', ''list''] then 1 else 0, Suc w))\<rparr>"

subsection \<open>Repeatable calls\<close>

definition repeatable :: "call \<Rightarrow> bool" where
  \<comment> \<open>calls whose answer the callee's documentation makes a function of the arguments:
      dropping and selecting columns, a new label encoder and its fitting, and a split
      that is given an integer \<open>random_state\<close> (without one the split draws on the global
      random generator)\<close>
  "repeatable c =
     (case c of
        Method obj m args kw \<Rightarrow> m = ''drop'' \<or> m = ''__getitem__'' \<or> m = ''fit_transform''
      | Fn f args kw \<Rightarrow>
          f = ''LabelEncoder'' \<or>
          (f = ''train_test_split'' \<and>
           (case map_of kw ''random_state'' of Some (PInt seed) \<Rightarrow> True | _ \<Rightarrow> False))
      | _ \<Rightarrow> False)"

definition repeatable_library :: "library \<Rightarrow> bool" where
  \<comment> \<open>a repeatable call is answered the same way whenever it is made\<close>
  "repeatable_library lib = (\<forall>n m c. repeatable c \<longrightarrow> lib n c = lib m c)"


definition steady_library :: library where
  \<comment> \<open>answers as \<open>sample_library\<close> does at the start, whenever it is asked\<close>
  "steady_library n c = sample_library 0 c"

section \<open>The libraries behind \<open>preprocess_data\<close>, as documented\<close>

text \<open>
  pandas and scikit-learn are not part of the repository. To say what \<open>preprocess_data\<close>
  returns for a given dataframe, this section writes down what their documentation says
  about the five calls it makes, as one library among those an execution can be given. A
  dataframe is an object of class \<open>DataFrame\<close> that holds its column labels and its rows; a
  column taken from it, or an array of labels, holds its elements. The permutation that
  the split draws for a seed and a number of rows remains a parameter.
\<close>

definition data_frame :: "pyval list \<Rightarrow> pyval list list \<Rightarrow> pyval" where
  "data_frame cols rows = PObj ''DataFrame'' [PList cols, PList (map PList rows)]"

definition array :: "pyval list \<Rightarrow> pyval" where
  "array xs = PObj ''array'' [PList xs]"

definition cells_of :: "pyval \<Rightarrow> pyval list" where
  "cells_of row = (case row of PList cells \<Rightarrow> cells | _ \<Rightarrow> [])"

definition as_frame :: "pyval \<Rightarrow> (pyval list \<times> pyval list list) option" where
  "as_frame v =
     (case v of
        PObj cls parts \<Rightarrow>
          (case parts of
             [PList cols, PList rows] \<Rightarrow>
               (if cls = ''DataFrame'' then Some (cols, map cells_of rows) else None)
           | _ \<Rightarrow> None)
      | _ \<Rightarrow> None)"

definition as_array :: "pyval \<Rightarrow> pyval list option" where
  "as_array v =
     (case v of
        PObj cls parts \<Rightarrow>
          (case parts of
             [PList xs] \<Rightarrow> (if cls = ''array'' then Some xs else None)
           | _ \<Rightarrow> None)
      | _ \<Rightarrow> None)"

definition without_columns :: "pyval list \<Rightarrow> pyval list \<Rightarrow> 'a list \<Rightarrow> 'a list" where
  \<comment> \<open>what is left of a row, or of the labels themselves, once the columns with the given
      labels are gone\<close>
  "without_columns labels cols cells =
     map snd (filter (\<lambda>labelled. fst labelled \<notin> set labels) (zip cols cells))"

definition column :: "pyval \<Rightarrow> pyval list \<Rightarrow> pyval list list \<Rightarrow> pyval list" where
  \<comment> \<open>the cells of the first column with this label\<close>
  "column label cols rows =
     map (\<lambda>cells. cells ! length (takeWhile (\<lambda>l. l \<noteq> label) cols)) rows"

definition pandas_drop :: "pyval \<Rightarrow> pyval list \<Rightarrow> (string \<times> pyval) list \<Rightarrow> exn + pyval" where
  \<comment> \<open>\<open>DataFrame.drop(labels, axis=1)\<close>: the frame without these columns; \<open>KeyError\<close> when a
      label is not a column\<close>
  "pandas_drop df args kw =
     (case (as_frame df, args) of
        (Some (cols, rows), [PList labels]) \<Rightarrow>
          (if kw \<noteq> [(''axis'', PInt 1)] then Inl (Exn ''NotImplementedError'' ''drop'')
           else if \<not> set labels \<subseteq> set cols then Inl (Exn ''KeyError'' ''not found in axis'')
           else Inr (data_frame (without_columns labels cols cols)
                                (map (without_columns labels cols) rows)))
      | _ \<Rightarrow> Inl (Exn ''TypeError'' ''drop''))"

definition pandas_getitem :: "pyval \<Rightarrow> pyval list \<Rightarrow> exn + pyval" where
  \<comment> \<open>\<open>df[label]\<close>: the column with this label; \<open>KeyError\<close> when there is none\<close>
  "pandas_getitem df args =
     (case (as_frame df, args) of
        (Some (cols, rows), [label]) \<Rightarrow>
          (if label \<notin> set cols then Inl (Exn ''KeyError'' ''no such column'')
           else if count_list cols label \<noteq> 1
           then Inl (Exn ''NotImplementedError'' ''duplicate column labels'')
           else Inr (array (column label cols rows)))
      | _ \<Rightarrow> Inl (Exn ''TypeError'' ''__getitem__''))"

definition is_text :: "pyval \<Rightarrow> bool" where
  "is_text v = (case v of PStr s \<Rightarrow> True | _ \<Rightarrow> False)"

definition label_text :: "pyval \<Rightarrow> string" where
  "label_text v = (case v of PStr s \<Rightarrow> s | _ \<Rightarrow> [])"

definition label_encode :: "pyval list \<Rightarrow> pyval list" where
  \<comment> \<open>\<open>LabelEncoder.fit_transform\<close> on text labels: each label becomes its position among
      the distinct labels in sorted order\<close>
  "label_encode cells =
     (let classes = sort (remdups (map label_text cells))
      in map (\<lambda>v. PInt (int (length (takeWhile (\<lambda>c. c \<noteq> label_text v) classes)))) cells)"

definition sklearn_fit_transform :: "pyval list \<Rightarrow> exn + pyval" where
  "sklearn_fit_transform args =
     (case args of
        [y] \<Rightarrow>
          (case as_array y of
             Some cells \<Rightarrow>
               (if list_all is_text cells
                then Inr (array (label_encode cells))
                else Inl (Exn ''NotImplementedError'' ''labels that are not text''))
           | None \<Rightarrow> Inl (Exn ''ValueError'' ''y should be a 1d array''))
      | _ \<Rightarrow> Inl (Exn ''TypeError'' ''fit_transform''))"

definition test_rows :: "pyval \<Rightarrow> nat \<Rightarrow> nat option" where
  \<comment> \<open>a float \<open>test_size\<close> strictly between 0 and 1 asks for \<open>ceil(test_size * n)\<close> rows\<close>
  "test_rows test_size n =
     (case test_size of
        PFloat m e \<Rightarrow>
          (if 0 < m \<and> e < 0 \<and> m < 10 ^ nat (- e)
           then Some (nat (- ((- (m * int n)) div 10 ^ nat (- e))))
           else None)
      | _ \<Rightarrow> None)"

definition take_rows :: "nat list \<Rightarrow> 'a list \<Rightarrow> 'a list" where
  "take_rows indices xs = map (\<lambda>i. xs ! i) indices"

definition sklearn_train_test_split ::
  "(nat \<Rightarrow> nat \<Rightarrow> nat list) \<Rightarrow> nat \<Rightarrow> pyval list \<Rightarrow> (string \<times> pyval) list \<Rightarrow> exn + pyval" where
  \<comment> \<open>\<open>train_test_split(X, y, test_size=t, random_state=s)\<close>: the rows are permuted (by the
      permutation of the seed, or of the generator's state when no seed is given); the
      first \<open>ceil(t * n)\<close> of them are the test part, the rest the training part;
      \<open>ValueError\<close> when the training part would be empty\<close>
  "sklearn_train_test_split permutation state args kw =
     (case (args, map_of kw ''test_size'') of
        ([X, y], Some test_size) \<Rightarrow>
          (case (as_frame X, as_array y) of
             (Some (cols, rows), Some labels) \<Rightarrow>
               (if length labels \<noteq> length rows
                then Inl (Exn ''ValueError'' ''inconsistent numbers of samples'')
                else case test_rows test_size (length rows) of
                  None \<Rightarrow> Inl (Exn ''ValueError'' ''test_size'')
                | Some n_test \<Rightarrow>
                    (if length rows - n_test = 0
                     then Inl (Exn ''ValueError'' ''the resulting train set will be empty'')
                     else
                       (let seed = (case map_of kw ''random_state'' of
                                      Some (PInt s) \<Rightarrow> nat s
                                    | _ \<Rightarrow> state);
                            shuffled = permutation seed (length rows);
                            test = take n_test shuffled;
                            train = drop n_test shuffled
                        in Inr (PList [data_frame cols (take_rows train rows),
                                       data_frame cols (take_rows test rows),
                                       array (take_rows train labels),
                                       array (take_rows test labels)]))))
           | _ \<Rightarrow> Inl (Exn ''NotImplementedError'' ''train_test_split''))
      | _ \<Rightarrow> Inl (Exn ''NotImplementedError'' ''train_test_split''))"

definition documented_library :: "(nat \<Rightarrow> nat \<Rightarrow> nat list) \<Rightarrow> library" where
  "documented_library permutation n c =
     (case c of
        Method obj m args kw \<Rightarrow>
          (if m = ''drop'' then pandas_drop obj args kw
           else if m = ''__getitem__'' then pandas_getitem obj args
           else if m = ''fit_transform'' then sklearn_fit_transform args
           else Inr PNone)
      | Fn f args kw \<Rightarrow>
          (if f = ''LabelEncoder'' then Inr (PObj ''LabelEncoder'' [])
           else if f = ''train_test_split'' then sklearn_train_test_split permutation n args kw
           else Inr PNone)
      | _ \<Rightarrow> Inr PNone)"




section \<open>Lemmas about programs and executions\<close>

lemma run_Call:
  "run (Call c k) lib tr =
     (case lib (length tr) c of
        Inl e \<Rightarrow> (Inl e, tr @ [(c, Inl e)])
      | Inr v \<Rightarrow> run (k v) lib (tr @ [(c, Inr v)]))"
  by (simp add: Call_def split: sum.splits)

lemma py_bind_Call: "py_bind (Call c k) f = Call c (\<lambda>v. py_bind (k v) f)"
  by (auto simp: Call_def fun_eq_iff split: sum.splits)


lemma run_bind:
  "run (py_bind p f) lib tr =
     (case run p lib tr of
        (Inl e, tr') \<Rightarrow> (Inl e, tr')
      | (Inr a, tr') \<Rightarrow> run (f a) lib tr')"
  by (induction p arbitrary: tr) auto

lemma wpf_Call:
  "wpf step (Call c k) Q s =
     ((\<forall>e. Q (Inl e) (step s (c, Inl e))) \<and> (\<forall>v. wpf step (k v) Q (step s (c, Inr v))))"
  by (auto simp: Call_def split: sum.splits)

lemma wpf_sound:
  "wpf step p Q (foldl step s0 tr) \<Longrightarrow>
     Q (fst (run p lib tr)) (foldl step s0 (snd (run p lib tr)))"
  by (induction p arbitrary: tr) auto

lemma foldl_snoc: "foldl snoc xs ys = xs @ ys"
  by (induction ys arbitrary: xs) (simp_all add: snoc_def)

lemma foldl_collect: "foldl (collect pick) xs tr = xs @ List.map_filter pick tr"
  by (induction tr arbitrary: xs)
    (simp_all add: collect_def List.map_filter_simps split: option.splits)

lemma map_filter_map: "List.map_filter f (map g xs) = List.map_filter (f \<circ> g) xs"
  by (induction xs) (simp_all add: List.map_filter_simps split: option.splits)

lemma wp_events: "wp p Q [] \<Longrightarrow> Q (outcome p lib) (events p lib)"
  using wpf_sound[of snoc p Q "[]" "[]" lib] by (simp add: outcome_def events_def foldl_snoc)

lemma wpf_collect:
  "wpf (collect pick) p Q [] \<Longrightarrow> Q (outcome p lib) (List.map_filter pick (events p lib))"
  using wpf_sound[of "collect pick" p Q "[]" "[]" lib]
  by (simp add: outcome_def events_def foldl_collect)

lemma wpf_collect_calls:
  "wpf (collect (pick \<circ> fst)) p Q [] \<Longrightarrow>
     Q (outcome p lib) (List.map_filter pick (map fst (events p lib)))"
  using wpf_collect[of "pick \<circ> fst" p Q lib] by (simp add: map_filter_map)

lemma wpf_bind:
  "wpf step (py_bind p f) Q s =
     wpf step p (\<lambda>r s'. case r of Inl e \<Rightarrow> Q (Inl e) s' | Inr a \<Rightarrow> wpf step (f a) Q s') s"
  by (induction p arbitrary: s) auto


lemma wpf_display:
  "wpf step (display v) Q s =
     ((\<forall>e. Q (Inl e) (step s (Display v, Inl e))) \<and>
      (\<forall>u. Q (Inr ()) (step s (Display v, Inr u))))"
  by (simp add: display_def wpf_Call)

lemma wpf_py_iter:
  "wpf step (py_iter v) Q s =
     ((\<forall>xs. items v = Some xs \<longrightarrow> Q (Inr xs) s) \<and>
      (items v = None \<longrightarrow> Q (Inl (Exn ''TypeError'' ''object is not iterable'')) s))"
  by (auto simp: py_iter_def split: option.splits)

lemma wpf_unpack4:
  "wpf step (unpack4 v) Q s =
     ((\<forall>a b c d. items v = Some [a, b, c, d] \<longrightarrow> Q (Inr (a, b, c, d)) s) \<and>
      ((\<exists>xs. items v = Some xs \<and> length xs \<noteq> 4) \<longrightarrow>
         Q (Inl (Exn ''ValueError'' ''wrong number of values to unpack'')) s) \<and>
      (items v = None \<longrightarrow> Q (Inl (Exn ''TypeError'' ''object is not iterable'')) s))"
proof (cases "items v")
  case None
  then show ?thesis by (simp add: unpack4_def wpf_bind wpf_py_iter)
next
  case (Some xs)
  then show ?thesis by (simp add: unpack4_def wpf_bind wpf_py_iter split: list.splits)
qed

lemma wpf_py_format:
  "wpf step (py_format v) Q s =
     ((\<forall>t. v = PStr t \<longrightarrow> Q (Inr t) s) \<and>
      ((\<forall>t. v \<noteq> PStr t) \<longrightarrow>
         (\<forall>e. Q (Inl e) (step s (Fn ''format'' [v] [], Inl e))) \<and>
         (\<forall>t. Q (Inr t) (step s (Fn ''format'' [v] [], Inr (PStr t)))) \<and>
         (\<forall>r. (\<forall>t. r \<noteq> PStr t) \<longrightarrow>
            Q (Inl (Exn ''TypeError'' ''__format__ must return a str''))
              (step s (Fn ''format'' [v] [], Inr r)))))"
proof -
  have call: "wpf step (Call (Fn ''format'' [w] [])
        (\<lambda>r. case r of PStr s \<Rightarrow> Return s
              | _ \<Rightarrow> Raise (Exn ''TypeError'' ''__format__ must return a str''))) Q s =
     ((\<forall>e. Q (Inl e) (step s (Fn ''format'' [w] [], Inl e))) \<and>
      (\<forall>t. Q (Inr t) (step s (Fn ''format'' [w] [], Inr (PStr t)))) \<and>
      (\<forall>r. (\<forall>t. r \<noteq> PStr t) \<longrightarrow>
         Q (Inl (Exn ''TypeError'' ''__format__ must return a str''))
           (step s (Fn ''format'' [w] [], Inr r))))" for w
    unfolding wpf_Call
    apply (rule arg_cong2[where f="(\<and>)"])
     apply simp
    apply (rule iffI)
     apply (intro conjI allI impI)
    subgoal for t by (drule spec[of _ "PStr t"]) simp
    subgoal for r by (drule spec[of _ r]) (cases r; simp)
    subgoal
      apply (intro allI)
      subgoal for r by (cases r; simp)
      done
    done
  show ?thesis
    by (cases v) (simp_all add: py_format_def call)
qed

lemma wpf_without_formatting:
  "wpf (collect (\<lambda>entry. if formatting entry then None else Some entry)) p Q [] \<Longrightarrow>
     Q (outcome p lib) (without_formatting (events p lib))"
proof -
  have "List.map_filter (\<lambda>entry. if formatting entry then None else Some entry) tr =
        without_formatting tr" for tr
    by (induction tr) (simp_all add: without_formatting_def List.map_filter_simps)
  with wpf_collect[of "\<lambda>entry. if formatting entry then None else Some entry" p Q lib]
  show "wpf (collect (\<lambda>entry. if formatting entry then None else Some entry)) p Q [] \<Longrightarrow>
     Q (outcome p lib) (without_formatting (events p lib))" by simp
qed

lemmas wp_rules =
  wpf_Call wpf_bind wpf_display wpf_unpack4 wpf_py_format py_bind_Call snoc_def

lemmas lgbm_defs =
  lgbm_notebook_def lgbm_pip_install_def lgbm_setup_tracking_def lgbm_load_data_def
  lgbm_imports_def lgbm_trial_def preprocess_data_def train_model_def evaluate_model_def
  Let_def

lemmas deploy_defs =
  deploy_notebook_def deploy_sdk_version_def deploy_workspace_def deploy_register_model_def
  deploy_write_requirements_def deploy_environment_def deploy_to_aci_def deploy_get_logs_def
  deploy_scoring_uri_def deploy_show_image_def deploy_torch_imports_def preprocess_def
  deploy_test_service_def deploy_clean_up_def

lemmas dask_explore_defs =
  dask_explore_def dask_read_parquet_def dask_len_def dask_info_def dask_histogram_def
  dask_compute_def dask_describe_def dask_df_size_def dask_ddf_size_def

lemmas dask_locate_defs =
  dask_locate_def dask_pip_install_def dask_workspace_def dask_client_def
  dask_public_names_def dask_https_uri_def dask_read_csv_def dask_az_uri_def
  dask_read_csv_az_def dask_private_data_def dask_ls_container_def dask_open_names_def
  dask_open_fs_def dask_ls_color_def dask_ls_year_def dask_glob_files_def Let_def

subsection \<open>No handler in the notebooks\<close>
















subsection \<open>The LightGBM notebook\<close>

lemma lgbm_success_trace_wp:
  "wp lgbm_notebook (\<lambda>r tr. r = Inr () \<longrightarrow>
    (\<exists>v0 v1 v2 ws uri v5 r0 v7 v8 df h v11 v12 v13 v14 v15 v16 v17
       X y0 enc y s X_train X_test y_train y_test run v25 t1 train_data test_data model t2
       train_time v32 y_proba y_pred loss acc v37 r1 v39.
     items s = Some [X_train, X_test, y_train, y_test] \<and>
     tr =
     [(Shell ''pip install --upgrade numpy pandas scikit-learn lightgbm'', Inr v0),
      (Import ''mlflow'', Inr v1),
      (ImportFrom ''azureml.core'' [''Workspace''], Inr v2),
      (Fn ''Workspace.from_config'' [] [], Inr ws),
      (Method ws ''get_mlflow_tracking_uri'' [] [], Inr uri),
      (Fn ''mlflow.set_tracking_uri'' [uri] [], Inr v5),
      (Fn ''mlflow.set_experiment'' [PStr ''lightgbm-iris-local-example''] [], Inr r0),
      (Display r0, Inr v7),
      (Import ''pandas'', Inr v8),
      (Fn ''pd.read_csv'' [lgbm_data_uri] [], Inr df),
      (Method df ''head'' [] [], Inr h),
      (Display h, Inr v11),
      (Import ''time'', Inr v12),
      (Import ''lightgbm'', Inr v13),
      (ImportFrom ''sklearn.metrics'' [''log_loss'', ''accuracy_score''], Inr v14),
      (ImportFrom ''sklearn.preprocessing'' [''LabelEncoder''], Inr v15),
      (ImportFrom ''sklearn.model_selection'' [''train_test_split''], Inr v16),
      (ImportFrom ''sklearn.metrics'' [''accuracy_score'', ''log_loss''], Inr v17),
      (Method df ''drop'' [PList [PStr ''species'']] [(''axis'', PInt 1)], Inr X),
      (Method df ''__getitem__'' [PStr ''species''] [], Inr y0),
      (Fn ''LabelEncoder'' [] [], Inr enc),
      (Method enc ''fit_transform'' [y0] [], Inr y),
      (Fn ''train_test_split'' [X, y]
         [(''test_size'', PFloat 2 (-1)), (''random_state'', PInt 42)], Inr s),
      (Fn ''mlflow.start_run'' [] [], Inr run),
      (Fn ''mlflow.lightgbm.autolog'' [] [], Inr v25),
      (Fn ''time.time'' [] [], Inr t1),
      (Fn ''lgb.Dataset'' [X_train] [(''label'', y_train)], Inr train_data),
      (Fn ''lgb.Dataset'' [X_test] [(''label'', y_test)], Inr test_data),
      (Fn ''lgb.train'' [lgbm_params, train_data]
         [(''num_boost_round'', PInt 32),
          (''valid_sets'', PList [test_data]),
          (''valid_names'', PList [PStr ''test''])], Inr model),
      (Fn ''time.time'' [] [], Inr t2),
      (Method t2 ''__sub__'' [t1] [], Inr train_time),
      (Fn ''mlflow.log_metric'' [PStr ''training_time'', train_time] [], Inr v32),
      (Method model ''predict'' [X_test] [], Inr y_proba),
      (Method y_proba ''argmax'' [] [(''axis'', PInt 1)], Inr y_pred),
      (Fn ''log_loss'' [y_test, y_proba] [], Inr loss),
      (Fn ''accuracy_score'' [y_test, y_pred] [], Inr acc),
      (Fn ''mlflow.log_metrics'' [PDict [(''loss'', loss), (''accuracy'', acc)]] [], Inr v37),
      (Fn ''mlflow.end_run'' [] [], Inr r1),
      (Display r1, Inr v39)])) []"
  by (simp add: lgbm_defs wp_rules)

lemmas lgbm_success_trace = wp_events[OF lgbm_success_trace_wp, rule_format]

lemma lgbm_sample_outcome: "outcome lgbm_notebook sample_library = Inr ()"
  by (simp add: outcome_def lgbm_defs display_def unpack4_def py_iter_def items_def
      py_bind_Call run_Call run_bind sample_library_def)



lemma lgbm_tracking_wp:
  "wpf (collect (tracking_name \<circ> fst)) lgbm_notebook (\<lambda>r names.
     prefix names
       [''mlflow.set_tracking_uri'', ''mlflow.set_experiment'', ''mlflow.start_run'',
        ''mlflow.lightgbm.autolog'', ''mlflow.log_metric'', ''mlflow.log_metrics'',
        ''mlflow.end_run''] \<and>
     (r = Inr () \<longrightarrow> names =
       [''mlflow.set_tracking_uri'', ''mlflow.set_experiment'', ''mlflow.start_run'',
        ''mlflow.lightgbm.autolog'', ''mlflow.log_metric'', ''mlflow.log_metrics'',
        ''mlflow.end_run''])) []"
  by (simp add: lgbm_defs wp_rules collect_def tracking_name_def)

text \<open>
  Claim C2, as the code has it. In every execution of the LightGBM notebook the calls into
  the tracking client are made in this order: set_tracking_uri, set_experiment, start_run,
  lightgbm.autolog, log_metric, log_metrics, end_run (an execution that raises stops
  somewhere in this list). So the tracking calls between \<open>mlflow.start_run\<close> and
  \<open>mlflow.end_run\<close> are \<open>mlflow.lightgbm.autolog\<close>, which switches automatic logging on,
  and the two metric-logging calls; and when no call raises, the run is started once and
  ended once, after everything else.
\<close>

theorem lgbm_tracking_calls:
  "prefix (tracking_names (events lgbm_notebook lib))
     [''mlflow.set_tracking_uri'', ''mlflow.set_experiment'', ''mlflow.start_run'',
      ''mlflow.lightgbm.autolog'', ''mlflow.log_metric'', ''mlflow.log_metrics'',
      ''mlflow.end_run''] \<and>
   (outcome lgbm_notebook lib = Inr () \<longrightarrow>
    tracking_names (events lgbm_notebook lib) =
     [''mlflow.set_tracking_uri'', ''mlflow.set_experiment'', ''mlflow.start_run'',
      ''mlflow.lightgbm.autolog'', ''mlflow.log_metric'', ''mlflow.log_metrics'',
      ''mlflow.end_run''])"
  using wpf_collect_calls[OF lgbm_tracking_wp, of lib] by (simp add: tracking_names_def)

theorem lgbm_tracking_calls_witness:
  "outcome lgbm_notebook sample_library = Inr () \<and>
   tracking_names (events lgbm_notebook sample_library) =
     [''mlflow.set_tracking_uri'', ''mlflow.set_experiment'', ''mlflow.start_run'',
      ''mlflow.lightgbm.autolog'', ''mlflow.log_metric'', ''mlflow.log_metrics'',
      ''mlflow.end_run'']"
  using lgbm_tracking_calls[of sample_library] lgbm_sample_outcome by simp

text \<open>
  Claim C2 as stated fails: with a library in which every call succeeds, a tracking call
  made between the start and the end of the run is not a metric-logging call
  (\<open>mlflow.lightgbm.autolog\<close>).
\<close>

theorem autolog_within_run:
  "\<not> only_metrics_in_run (tracking_names (events lgbm_notebook sample_library))"
proof -
  from wpf_collect_calls[OF lgbm_tracking_wp, of sample_library] lgbm_sample_outcome
  have "tracking_names (events lgbm_notebook sample_library) =
     [''mlflow.set_tracking_uri'', ''mlflow.set_experiment'', ''mlflow.start_run'',
      ''mlflow.lightgbm.autolog'', ''mlflow.log_metric'', ''mlflow.log_metrics'',
      ''mlflow.end_run'']"
    by (simp add: tracking_names_def)
  then show ?thesis
    by (simp add: only_metrics_in_run_def within_run_def)
qed

text \<open>
  Claim C4. When the LightGBM notebook runs to its end, it has read the data set, split it,
  trained a model with objective \<open>multiclass\<close> and 3 classes on the training part, logged
  the metric \<open>training_time\<close>, and logged as \<open>loss\<close> and \<open>accuracy\<close> the log-loss and the
  accuracy of the trained model's predictions on the test part.
\<close>

theorem lgbm_trains_and_logs_metrics:
  assumes "outcome lgbm_notebook lib = Inr ()"
  shows "py_get lgbm_params ''objective'' = Some (PStr ''multiclass'') \<and>
         py_get lgbm_params ''num_class'' = Some (PInt 3) \<and>
         trained_and_logged (events lgbm_notebook lib)"
  unfolding trained_and_logged_def
  using lgbm_success_trace[OF assms]
  apply (elim exE conjE)
  apply (simp only:)
  apply (intro exI conjI)
     apply (simp add: py_get_def lgbm_params_def)
    apply (simp add: py_get_def lgbm_params_def)
   apply assumption
  apply ((rule list_emb_Cons2, rule refl) | rule list_emb_Cons | rule list_emb_Nil)+
  done

theorem lgbm_trains_and_logs_metrics_witness:
  "outcome lgbm_notebook sample_library = Inr () \<and>
   py_get lgbm_params ''objective'' = Some (PStr ''multiclass'') \<and>
   py_get lgbm_params ''num_class'' = Some (PInt 3) \<and>
   trained_and_logged (events lgbm_notebook sample_library)"
  using lgbm_trains_and_logs_metrics[OF lgbm_sample_outcome] lgbm_sample_outcome
  by (intro conjI) simp_all

subsection \<open>The deployment notebook\<close>

lemma deploy_steps_wp:
  "wpf (collect (step_of \<circ> fst)) deploy_notebook (\<lambda>r ss.
     prefix ss [Register, Package, Deploy, Invoke, Delete] \<and>
     (r = Inr () \<longrightarrow> ss = [Register, Package, Deploy, Invoke, Delete])) []"
  by (simp add: deploy_defs wp_rules collect_def step_of_def)

lemma deploy_flow_wp:
  "wp deploy_notebook (\<lambda>r tr. r = Inr () \<longrightarrow> deployed_and_deleted tr) []"
  apply (simp add: deploy_defs wp_rules)
  apply (intro allI)
  unfolding deployed_and_deleted_def
  apply (intro exI)
  apply ((rule list_emb_Cons2, rule refl) | rule list_emb_Cons | rule list_emb_Nil)+
  done

lemma deploy_sample_outcome: "outcome deploy_notebook sample_library = Inr ()"
  by (simp add: outcome_def deploy_defs display_def py_bind_Call run_Call run_bind
      sample_library_def)

text \<open>
  Claim C3. In every execution of the deployment notebook the steps come in the order
  register, package, deploy, invoke, delete (an execution that raises stops somewhere in
  this list), and an execution that reaches the end has made each of them once: it
  registered the model file, packaged the scoring script with the environment into an
  inference configuration, deployed the registered model with that configuration on
  container instances, and invoked, then deleted, the service the deployment returned.
\<close>

theorem deploy_steps_in_order:
  "prefix (steps (events deploy_notebook lib)) [Register, Package, Deploy, Invoke, Delete] \<and>
   (outcome deploy_notebook lib = Inr () \<longrightarrow>
      steps (events deploy_notebook lib) = [Register, Package, Deploy, Invoke, Delete] \<and>
      deployed_and_deleted (events deploy_notebook lib))"
  using wpf_collect_calls[OF deploy_steps_wp, of lib] wp_events[OF deploy_flow_wp, of lib]
  by (simp add: steps_def)

theorem deploy_steps_in_order_witness:
  "outcome deploy_notebook sample_library = Inr () \<and>
   steps (events deploy_notebook sample_library) = [Register, Package, Deploy, Invoke, Delete] \<and>
   deployed_and_deleted (events deploy_notebook sample_library)"
  using deploy_steps_in_order[of sample_library] deploy_sample_outcome by simp

subsection \<open>The data-exploration notebook\<close>

lemma dask_explore_wp:
  "wpf (collect (\<lambda>entry. if formatting entry then None else Some entry))
     (dask_explore files storage_options)
     (\<lambda>r tr. r = Inr () \<longrightarrow> explored files storage_options tr) []"
  unfolding explored_def
  by (simp add: dask_explore_defs wp_rules collect_def formatting_def)


text \<open>
  Claim C1, as the code has it. When the cells that build and use the distributed dataframe
  run to their end, their calls (formatting aside) are exactly those of \<open>explored\<close>: the
  handle \<open>ddf\<close> is the result of \<open>dd.read_parquet(...).repartition(npartitions=8).persist()\<close>;
  it is displayed, measured by \<open>len(ddf)\<close> twice and described by \<open>ddf.info()\<close>; and the
  three results taken from it (the \<open>tipAmount\<close> column, the whole frame, the summed memory
  usage) are each materialised by \<open>.compute()\<close>.
\<close>

theorem dask_handle_operations:
  assumes "outcome (dask_explore files storage_options) lib = Inr ()"
  shows "explored files storage_options
           (without_formatting (events (dask_explore files storage_options) lib))"
  using wpf_without_formatting[OF dask_explore_wp, of files storage_options lib] assms
  by simp

lemma dask_explore_sample_outcome:
  "outcome (dask_explore (PList [PStr ''az://nyctlc/green/puYear=2016/puMonth=12/part-0.parquet''])
      [(''account_name'', PStr ''azureopendatastorage'')]) sample_library = Inr ()"
  by (simp add: outcome_def dask_explore_defs display_def py_format_def
      py_bind_Call run_Call run_bind sample_library_def)

theorem dask_handle_operations_witness:
  "outcome (dask_explore (PList [PStr ''az://nyctlc/green/puYear=2016/puMonth=12/part-0.parquet''])
      [(''account_name'', PStr ''azureopendatastorage'')]) sample_library = Inr () \<and>
   explored (PList [PStr ''az://nyctlc/green/puYear=2016/puMonth=12/part-0.parquet''])
      [(''account_name'', PStr ''azureopendatastorage'')]
      (without_formatting
        (events (dask_explore
           (PList [PStr ''az://nyctlc/green/puYear=2016/puMonth=12/part-0.parquet''])
           [(''account_name'', PStr ''azureopendatastorage'')]) sample_library))"
  using dask_handle_operations[OF dask_explore_sample_outcome] dask_explore_sample_outcome
  by simp

lemmas run_rules = py_bind_Call run_Call run_bind display_def py_format_def py_iter_def items_def
  last_n_def sample_library_def

lemma dask_sample_frames:
  "dataframes (events dask_notebook sample_library) =
     [PObj ''dd.read_parquet'' [PInt 39], PObj ''repartition'' [PInt 40],
      PObj ''persist'' [PInt 41]]"
  by (simp add: events_def dask_notebook_def dask_locate_defs dask_explore_defs run_rules
      dataframes_def builds_frame_def List.map_filter_simps)

lemma dask_sample_frame_operations:
  "frame_operations (events dask_notebook sample_library) =
     [Method (PObj ''dd.read_parquet'' [PInt 39]) ''repartition'' [] [(''npartitions'', PInt 8)],
      Method (PObj ''repartition'' [PInt 40]) ''persist'' [] [],
      Display (PObj ''persist'' [PInt 41]),
      Fn ''len'' [PObj ''persist'' [PInt 41]] [],
      Fn ''len'' [PObj ''persist'' [PInt 41]] [],
      Method (PObj ''persist'' [PInt 41]) ''info'' [] [],
      Method (PObj ''persist'' [PInt 41]) ''__getitem__'' [PStr ''tipAmount''] [],
      Method (PObj ''persist'' [PInt 41]) ''compute'' [] [],
      Method (PObj ''persist'' [PInt 41]) ''memory_usage'' []
        [(''index'', PBool True), (''deep'', PBool True)]]"
  unfolding frame_operations_def dask_sample_frames
  by (simp add: events_def dask_notebook_def dask_locate_defs dask_explore_defs run_rules
      subject_def)

text \<open>
  Claim C1 as stated fails: with a library in which every call succeeds, the operations on
  the handle include \<open>.persist()\<close>, \<open>len\<close> (twice) and \<open>.info()\<close>, none of which is
  \<open>.compute()\<close>.
\<close>

theorem handle_persisted_and_inspected:
  "\<not> only_compute_reveals (events dask_notebook sample_library)"
  unfolding only_compute_reveals_def dask_sample_frame_operations
  by (simp add: persists_or_inspects_def is_compute_def)

subsection \<open>Executions in which every call succeeds\<close>





















section \<open>Lemmas about the workflows\<close>

lemma lint_steps_eq:
  "lint_steps =
     [\<lparr>step_name = ''check code format'',
       step_action = Run (Cmd [''black'', ''--check'', ''.'']) None\<rparr>,
      \<lparr>step_name = ''check notebook format'',
       step_action = Run (Cmd [''black-nb'', ''--clear-output'', ''--check'', ''.'']) None\<rparr>]"
  by (simp add: lint_steps_def smoke_def)

lemma walkthrough_step_eq:
  "walkthrough_step =
     \<lparr>step_name = ''test doc script'',
      step_action =
        Run (Semi (Cmd [''set'', ''-e'']) (Cmd [''bash'', ''-x'', ''how-to-configure-cli.sh'']))
            (Some ''cli'')\<rparr>"
  by (simp add: walkthrough_step_def cli_docs_def)

lemmas job_defs =
  run_workflow_def run_step_def run_sh_def step_command_def simple_command_def new_shell_def
  succeeded_def Let_def case_prod_beta





text \<open>
  Claim C10. Both format checks of the smoke workflow are invoked with \<open>--check\<close>. With
  formatters that keep what this option promises (report, write nothing), running the lint
  steps leaves the world, and so every file's contents, unchanged; what the steps report is
  the exit code of each formatter.
\<close>

theorem lint_steps_leave_files_unchanged:
  assumes "check_only r"
  shows "map step_action lint_steps =
           [Run (Cmd [''black'', ''--check'', ''.'']) None,
            Run (Cmd [''black-nb'', ''--clear-output'', ''--check'', ''.'']) None] \<and>
         after (run_steps r lint_steps w) = w \<and>
         commands (run_steps r lint_steps w) =
           (let code = fst (run_command r None [''black'', ''--check'', ''.''] w) in
            if code = 0
            then [([''black'', ''--check'', ''.''], 0),
                  ([''black-nb'', ''--clear-output'', ''--check'', ''.''],
                     fst (run_command r None
                            [''black-nb'', ''--clear-output'', ''--check'', ''.''] w))]
            else [([''black'', ''--check'', ''.''], code)]) \<and>
         step_log (run_steps r lint_steps w) =
           map2 (\<lambda>name entry. (name, snd entry))
             [''check code format'', ''check notebook format'']
             (commands (run_steps r lint_steps w))"
proof -
  from assms have a: "snd (run_command r None [''black'', ''--check'', ''.''] w') = w'"
    and b: "snd (run_command r None [''black-nb'', ''--clear-output'', ''--check'', ''.''] w') = w'"
    for w'
    by (simp_all add: check_only_def)
  show ?thesis
    by (simp add: lint_steps_eq job_defs a b)
qed

lemma sample_runner_check_only: "check_only sample_runner"
  by (simp add: check_only_def sample_runner_def)

theorem lint_steps_leave_files_unchanged_witness:
  "check_only sample_runner \<and>
   after (run_steps sample_runner lint_steps 5) = 5 \<and>
   step_log (run_steps sample_runner lint_steps 5) =
     [(''check code format'', 0), (''check notebook format'', 0)] \<and>
   after (run_workflow sample_runner smoke 0) = 3"
  using lint_steps_leave_files_unchanged[OF sample_runner_check_only, of 5]
  by (simp add: sample_runner_check_only)
    (simp add: sample_runner_def smoke_def job_defs)

text \<open>
  Claim C6. A push to \<open>main\<close> triggers the smoke workflow, and a run of it in which no step
  fails has run the two format checks, \<open>black --check .\<close> and
  \<open>black-nb --clear-output --check .\<close>. The schedule \<open>0 0/4 * * *\<close> triggers the CLI
  workflow, and a run of it in which no step fails has logged in to the cloud account, set
  the workspace up and run the walkthrough script, \<open>bash -x how-to-configure-cli.sh\<close>.
\<close>

theorem workflows_lint_and_walk_through:
  "triggered smoke (Pushed ''main'') \<and>
   (succeeded (run_workflow r smoke w) \<longrightarrow>
      map fst (commands (run_workflow r smoke w)) =
        [[''pip'', ''install'', ''-r'', ''dev-requirements.txt''],
         [''black'', ''--check'', ''.''],
         [''black-nb'', ''--clear-output'', ''--check'', ''.'']]) \<and>
   triggered cli_docs (Tick ''0 0/4 * * *'') \<and>
   (succeeded (run_workflow r cli_docs w) \<longrightarrow>
      map fst (step_log (run_workflow r cli_docs w)) =
        [''check out repo'', ''azure login'', ''install ml cli'', ''setup workspace'',
         ''docs installs'', ''test doc script''] \<and>
      [''bash'', ''-x'', ''how-to-configure-cli.sh''] \<in>
        set (map fst (commands (run_workflow r cli_docs w))))"
  apply (intro conjI)
     apply (simp add: triggered_def smoke_def)
    apply (simp add: smoke_def job_defs)
   apply (simp add: triggered_def cli_docs_def)
  apply (simp add: cli_docs_def job_defs)
  done

theorem workflows_lint_and_walk_through_witness:
  "succeeded (run_workflow sample_runner smoke 0) \<and>
   map fst (commands (run_workflow sample_runner smoke 0)) =
        [[''pip'', ''install'', ''-r'', ''dev-requirements.txt''],
         [''black'', ''--check'', ''.''],
         [''black-nb'', ''--clear-output'', ''--check'', ''.'']] \<and>
   succeeded (run_workflow sample_runner cli_docs 0) \<and>
   [''bash'', ''-x'', ''how-to-configure-cli.sh''] \<in>
        set (map fst (commands (run_workflow sample_runner cli_docs 0)))"
proof -
  have 1: "succeeded (run_workflow sample_runner smoke 0)"
    by (simp add: sample_runner_def smoke_def job_defs)
  have 2: "succeeded (run_workflow sample_runner cli_docs 0)"
    by (simp add: sample_runner_def cli_docs_def job_defs bash_file_def)
  from workflows_lint_and_walk_through[of sample_runner 0] 1 2 show ?thesis by simp
qed




text \<open>
  Outside that precondition the step's \<open>set -e\<close> does not decide the exit code: it is set in
  the step's shell, and \<open>bash -x\<close> starts a new shell for the script. A script whose first
  command fails and whose last command succeeds lets the step succeed.
\<close>

theorem set_e_stays_outside_script:
  "step_log (run_step careless_runner walkthrough_step 0) = [(''test doc script'', 0)] \<and>
   walkthrough_commands careless_runner 0 =
     [([''az'', ''extension'', ''list''], 1), ([''az'', ''ml'', ''-h''], 0)]"
  by (simp add: walkthrough_step_eq job_defs walkthrough_commands_def bash_file_def
      careless_runner_def sample_runner_def)

section \<open>Lemmas about \<open>preprocess_data\<close>\<close>









lemma wp_run: "wp p Q tr \<Longrightarrow> Q (fst (run p lib tr)) (snd (run p lib tr))"
  using wpf_sound[of snoc p Q "[]" tr lib] by (simp add: foldl_snoc)

lemma preprocess_data_flow_wp:
  "wp (preprocess_data df)
     (\<lambda>r tr'. \<forall>X_train X_test y_train y_test enc.
        r = Inr (X_train, X_test, y_train, y_test, enc) \<longrightarrow>
        (\<exists>X y0 y s.
           items s = Some [X_train, X_test, y_train, y_test] \<and>
           tr' = tr @
             [(Method df ''drop'' [PList [PStr ''species'']] [(''axis'', PInt 1)], Inr X),
              (Method df ''__getitem__'' [PStr ''species''] [], Inr y0),
              (Fn ''LabelEncoder'' [] [], Inr enc),
              (Method enc ''fit_transform'' [y0] [], Inr y),
              (Fn ''train_test_split'' [X, y]
                 [(''test_size'', PFloat 2 (-1)), (''random_state'', PInt 42)], Inr s)]))
     tr"
  by (simp add: preprocess_data_def wp_rules)

text \<open>
  What \<open>preprocess_data\<close> returns, as far as the notebook decides it: the four parts of the
  split, with test size 0.2 and seed 42, of the dataframe without its \<open>species\<close> column and
  of the encoded \<open>species\<close> column, and the encoder. What the parts hold is up to
  \<open>DataFrame.drop\<close>, \<open>LabelEncoder\<close> and \<open>train_test_split\<close>.
\<close>

theorem preprocess_data_returns_split:
  assumes "run (preprocess_data df) lib tr = (Inr (X_train, X_test, y_train, y_test, enc), tr')"
  shows "\<exists>X y0 y s.
           items s = Some [X_train, X_test, y_train, y_test] \<and>
           tr' = tr @
             [(Method df ''drop'' [PList [PStr ''species'']] [(''axis'', PInt 1)], Inr X),
              (Method df ''__getitem__'' [PStr ''species''] [], Inr y0),
              (Fn ''LabelEncoder'' [] [], Inr enc),
              (Method enc ''fit_transform'' [y0] [], Inr y),
              (Fn ''train_test_split'' [X, y]
                 [(''test_size'', PFloat 2 (-1)), (''random_state'', PInt 42)], Inr s)]"
  using wp_run[OF preprocess_data_flow_wp[of df tr], of lib] assms by simp

theorem preprocess_data_returns_split_witness:
  "run (preprocess_data (PObj ''DataFrame'' [])) steady_library [] =
     (Inr (PObj ''X_train'' [], PObj ''X_test'' [], PObj ''y_train'' [], PObj ''y_test'' [],
           PObj ''LabelEncoder'' [PInt 0]),
      [(Method (PObj ''DataFrame'' []) ''drop'' [PList [PStr ''species'']] [(''axis'', PInt 1)],
          Inr (PObj ''drop'' [PInt 0])),
       (Method (PObj ''DataFrame'' []) ''__getitem__'' [PStr ''species''] [],
          Inr (PObj ''__getitem__'' [PInt 0])),
       (Fn ''LabelEncoder'' [] [], Inr (PObj ''LabelEncoder'' [PInt 0])),
       (Method (PObj ''LabelEncoder'' [PInt 0]) ''fit_transform''
          [PObj ''__getitem__'' [PInt 0]] [],
          Inr (PObj ''fit_transform'' [PInt 0])),
       (Fn ''train_test_split'' [PObj ''drop'' [PInt 0], PObj ''fit_transform'' [PInt 0]]
          [(''test_size'', PFloat 2 (-1)), (''random_state'', PInt 42)],
          Inr (PList [PObj ''X_train'' [], PObj ''X_test'' [],
                      PObj ''y_train'' [], PObj ''y_test'' []]))]) \<and>
   items (PList [PObj ''X_train'' [], PObj ''X_test'' [], PObj ''y_train'' [], PObj ''y_test'' []]) =
     Some [PObj ''X_train'' [], PObj ''X_test'' [], PObj ''y_train'' [], PObj ''y_test'' []]"
proof -
  have r: "run (preprocess_data (PObj ''DataFrame'' [])) steady_library [] =
     (Inr (PObj ''X_train'' [], PObj ''X_test'' [], PObj ''y_train'' [], PObj ''y_test'' [],
           PObj ''LabelEncoder'' [PInt 0]),
      [(Method (PObj ''DataFrame'' []) ''drop'' [PList [PStr ''species'']] [(''axis'', PInt 1)],
          Inr (PObj ''drop'' [PInt 0])),
       (Method (PObj ''DataFrame'' []) ''__getitem__'' [PStr ''species''] [],
          Inr (PObj ''__getitem__'' [PInt 0])),
       (Fn ''LabelEncoder'' [] [], Inr (PObj ''LabelEncoder'' [PInt 0])),
       (Method (PObj ''LabelEncoder'' [PInt 0]) ''fit_transform''
          [PObj ''__getitem__'' [PInt 0]] [],
          Inr (PObj ''fit_transform'' [PInt 0])),
       (Fn ''train_test_split'' [PObj ''drop'' [PInt 0], PObj ''fit_transform'' [PInt 0]]
          [(''test_size'', PFloat 2 (-1)), (''random_state'', PInt 42)],
          Inr (PList [PObj ''X_train'' [], PObj ''X_test'' [],
                      PObj ''y_train'' [], PObj ''y_test'' []]))])"
    by (simp add: preprocess_data_def unpack4_def py_iter_def items_def py_bind_Call run_Call
        run_bind steady_library_def sample_library_def)
  from preprocess_data_returns_split[OF r] r show ?thesis by (simp add: items_def)
qed

section \<open>What \<open>preprocess_data\<close> returns with the documented libraries\<close>










text \<open>
  The documented libraries answer the calls of \<open>preprocess_data\<close> the same way whenever they
  are made: the split is seeded, so the state of the random generator plays no part.
\<close>

lemma documented_library_repeatable: "repeatable_library (documented_library permutation)"
  unfolding repeatable_library_def
proof (intro allI impI)
  fix n m c
  assume "repeatable c"
  then show "documented_library permutation n c = documented_library permutation m c"
    by (cases c)
      (auto simp: repeatable_def documented_library_def sklearn_train_test_split_def Let_def
        split: option.splits pyval.splits list.splits prod.splits)
qed




end
